theory Spec2Isabelle
  imports Complex_Main
begin

section \<open>JavaScript values and strings\<close>

text \<open>
  The controller of \<^verbatim>\<open>src/articledto.ts\<close> receives request fields whose run-time type
  is not fixed (\<^verbatim>\<open>value: unknown\<close> in \<^verbatim>\<open>parseArrayField\<close>, the result of
  \<^verbatim>\<open>JSON.parse\<close>). They are values of the following type. A string is a list of
  code units; \<^typ>\<open>char\<close> holds the code units below 256, which is the range this
  development covers. A number carries its value; \<^verbatim>\<open>NaN\<close> and the infinities do not
  occur in a request body.
\<close>

datatype jsvalue =
    JUndefined
  | JNull
  | JBool bool
  | JNum rat
  | JStr string
  | JArr "jsvalue list"
  | JObj "(string \<times> jsvalue) list"

text \<open>The conversion to boolean of \<^verbatim>\<open>if (v)\<close>, \<^verbatim>\<open>!v\<close> and \<^verbatim>\<open>v ? a : b\<close>.\<close>

fun truthy :: "jsvalue \<Rightarrow> bool" where
  "truthy JUndefined = False"
| "truthy JNull = False"
| "truthy (JBool b) = b"
| "truthy (JNum q) = (q \<noteq> 0)"
| "truthy (JStr s) = (s \<noteq> [])"
| "truthy (JArr xs) = True"
| "truthy (JObj kvs) = True"

text \<open>\<^verbatim>\<open>Array.isArray(v)\<close>.\<close>

fun isArray :: "jsvalue \<Rightarrow> bool" where
  "isArray (JArr xs) = True"
| "isArray v = False"

text \<open>
  \<^verbatim>\<open>xs.flat()\<close>: one level of nesting is removed. The arrays here come from a request
  body or from \<^verbatim>\<open>JSON.parse\<close> and have no holes.
\<close>

fun flat1 :: "jsvalue \<Rightarrow> jsvalue list" where
  "flat1 (JArr ys) = ys"
| "flat1 v = [v]"

definition flat :: "jsvalue list \<Rightarrow> jsvalue list" where
  "flat xs = concat (map flat1 xs)"

text \<open>The predicate of \<^verbatim>\<open>.filter((item) => item !== null && item !== undefined)\<close>.\<close>

definition notNullish :: "jsvalue \<Rightarrow> bool" where
  "notNullish item = (item \<noteq> JNull \<and> item \<noteq> JUndefined)"

text \<open>
  Property read \<^verbatim>\<open>v.k\<close> for a key that no prototype defines (\<^verbatim>\<open>name\<close>,
  \<^verbatim>\<open>nameAr\<close>): an object gives its own property, where the last of several equal keys
  of a JSON text wins; a string, number, boolean or array gives \<^verbatim>\<open>undefined\<close>;
  \<^verbatim>\<open>null\<close> and \<^verbatim>\<open>undefined\<close> raise a TypeError, which is \<open>None\<close> here.
\<close>

fun get_prop :: "jsvalue \<Rightarrow> string \<Rightarrow> jsvalue option" where
  "get_prop JUndefined k = None"
| "get_prop JNull k = None"
| "get_prop (JObj kvs) k = (case map_of (rev kvs) k of None \<Rightarrow> Some JUndefined | Some v \<Rightarrow> Some v)"
| "get_prop v k = Some JUndefined"

text \<open>
  \<^verbatim>\<open>xs.includes(s)\<close> for a string \<open>s\<close>: strict equality, so only a string element
  can be equal to \<open>s\<close>.
\<close>

definition array_includes :: "jsvalue list \<Rightarrow> string \<Rightarrow> bool" where
  "array_includes xs s = (JStr s \<in> set xs)"

subsection \<open>String methods\<close>

text \<open>
  White space and line terminators of ECMAScript among the code units below 256:
  TAB, LF, VT, FF, CR, SP and NBSP.
\<close>

definition isWhiteSpace :: "char \<Rightarrow> bool" where
  "isWhiteSpace c = ((of_char c :: nat) \<in> {9, 10, 11, 12, 13, 32, 160})"

text \<open>\<^verbatim>\<open>s.trim()\<close>.\<close>

definition trim :: "string \<Rightarrow> string" where
  "trim s = rev (dropWhile isWhiteSpace (rev (dropWhile isWhiteSpace s)))"

text \<open>\<^verbatim>\<open>s.split(",")\<close>: the empty string gives one empty piece.\<close>

fun split_comma :: "string \<Rightarrow> string list" where
  "split_comma [] = [[]]"
| "split_comma (c # cs) =
     (if c = CHR '','' then [] # split_comma cs
      else (case split_comma cs of
              [] \<Rightarrow> [[c]]
            | piece # pieces \<Rightarrow> (c # piece) # pieces))"

text \<open>\<^verbatim>\<open>ids.join(",")\<close>, the comma-separated string of a list of identifiers.\<close>

fun join_comma :: "string list \<Rightarrow> string" where
  "join_comma [] = []"
| "join_comma [x] = x"
| "join_comma (x # y # ys) = x @ CHR '','' # join_comma (y # ys)"

section \<open>A parser for JSON texts\<close>

text \<open>
  \<^verbatim>\<open>JSON.parse\<close> belongs to the run-time system, not to the repository. The functions
  of the controller take it from their environment (see \<open>env\<close> below), and every general
  theorem holds for whatever function stands there. The parser of this section follows
  the JSON grammar of ECMA-404 and serves the worked examples. \<open>None\<close> is the
  SyntaxError of \<^verbatim>\<open>JSON.parse\<close>. Two limits: an escape \<^verbatim>\<open>\uXXXX\<close> above
  \<^verbatim>\<open>\u00FF\<close> names a code unit that \<^typ>\<open>char\<close> cannot hold and is refused; and a
  number is the value of its literal, which is the double of \<^verbatim>\<open>JSON.parse\<close> up to
  rounding. The controller tests a number for being zero and nothing else, and zero is
  exact.
\<close>

datatype token =
    TLBrace | TRBrace | TLBracket | TRBracket | TComma | TColon
  | TString string | TNumber rat | TTrue | TFalse | TNull

definition isDigit :: "char \<Rightarrow> bool" where
  "isDigit c = (48 \<le> (of_char c :: nat) \<and> (of_char c :: nat) \<le> 57)"

definition digitVal :: "char \<Rightarrow> nat" where
  "digitVal c = of_char c - 48"

definition digitsVal :: "string \<Rightarrow> nat" where
  "digitsVal ds = foldl (\<lambda>n c. 10 * n + digitVal c) 0 ds"

definition hexVal :: "char \<Rightarrow> nat option" where
  "hexVal c =
     (let n = (of_char c :: nat) in
      if 48 \<le> n \<and> n \<le> 57 then Some (n - 48)
      else if 65 \<le> n \<and> n \<le> 70 then Some (n - 55)
      else if 97 \<le> n \<and> n \<le> 102 then Some (n - 87)
      else None)"

text \<open>The character an escape letter stands for.\<close>

definition unescape :: "char \<Rightarrow> char option" where
  "unescape e =
     (if e = CHR 0x22 then Some (CHR 0x22)
      else if e = CHR 0x5C then Some (CHR 0x5C)
      else if e = CHR ''/'' then Some (CHR ''/'')
      else if e = CHR ''b'' then Some (CHR 0x08)
      else if e = CHR ''f'' then Some (CHR 0x0C)
      else if e = CHR ''n'' then Some (CHR 0x0A)
      else if e = CHR ''r'' then Some (CHR 0x0D)
      else if e = CHR ''t'' then Some (CHR 0x09)
      else None)"

definition unicodeEscape :: "char \<Rightarrow> char \<Rightarrow> char \<Rightarrow> char \<Rightarrow> char option" where
  "unicodeEscape a b c d =
     (case (hexVal a, hexVal b, hexVal c, hexVal d) of
        (Some h3, Some h2, Some h1, Some h0) \<Rightarrow>
          (if h3 = 0 \<and> h2 = 0 then Some (char_of (16 * h1 + h0)) else None)
      | _ \<Rightarrow> None)"

text \<open>
  The body of a string literal, after its opening quote: the string it denotes and the
  input behind the closing quote.
\<close>

fun lex_string :: "string \<Rightarrow> (string \<times> string) option" where
  "lex_string [] = None"
| "lex_string (c # cs) =
     (if c = CHR 0x22 then Some ([], cs)
      else if c = CHR 0x5C then
        (case cs of
           [] \<Rightarrow> None
         | e # cs1 \<Rightarrow>
             (if e = CHR ''u'' then
                (case cs1 of
                   a # b # c' # d # cs2 \<Rightarrow>
                     (case unicodeEscape a b c' d of
                        None \<Rightarrow> None
                      | Some u \<Rightarrow> map_option (\<lambda>(s, r). (u # s, r)) (lex_string cs2))
                 | _ \<Rightarrow> None)
              else
                (case unescape e of
                   None \<Rightarrow> None
                 | Some u \<Rightarrow> map_option (\<lambda>(s, r). (u # s, r)) (lex_string cs1))))
      else if (of_char c :: nat) < 32 then None
      else map_option (\<lambda>(s, r). (c # s, r)) (lex_string cs))"

text \<open>
  A number literal at the head of the input: minus sign, integer part without leading
  zero, optional fraction, optional exponent. A literal of magnitude at most
  \<^verbatim>\<open>2^-1075\<close> is zero as a double, and so it is here.
\<close>

definition lex_exponent :: "string \<Rightarrow> (int \<times> string) option" where
  "lex_exponent cs =
     (case cs of
        [] \<Rightarrow> Some (0, cs)
      | c # cs1 \<Rightarrow>
          (if c = CHR ''e'' \<or> c = CHR ''E'' then
             (let (neg, cs2) =
                    (case cs1 of
                       [] \<Rightarrow> (False, cs1)
                     | s # cs2 \<Rightarrow>
                         (if s = CHR ''-'' then (True, cs2)
                          else if s = CHR ''+'' then (False, cs2)
                          else (False, cs1)));
                  ds = takeWhile isDigit cs2
              in if ds = [] then None
                 else Some ((if neg then - int (digitsVal ds) else int (digitsVal ds)),
                            dropWhile isDigit cs2))
           else Some (0, cs)))"

definition lex_fraction :: "string \<Rightarrow> (rat \<times> string) option" where
  "lex_fraction cs =
     (case cs of
        [] \<Rightarrow> Some (0, cs)
      | c # cs1 \<Rightarrow>
          (if c = CHR ''.'' then
             (let ds = takeWhile isDigit cs1
              in if ds = [] then None
                 else Some (of_nat (digitsVal ds) / 10 ^ length ds, dropWhile isDigit cs1))
           else Some (0, cs)))"

definition lex_number :: "string \<Rightarrow> (rat \<times> string) option" where
  "lex_number cs =
     (let (neg, cs1) = (case cs of
                          [] \<Rightarrow> (False, cs)
                        | c # cs' \<Rightarrow> if c = CHR ''-'' then (True, cs') else (False, cs));
          ds = takeWhile isDigit cs1
      in if ds = [] \<or> (1 < length ds \<and> hd ds = CHR ''0'') then None
         else
           (case lex_fraction (dropWhile isDigit cs1) of
              None \<Rightarrow> None
            | Some (f, cs2) \<Rightarrow>
                (case lex_exponent cs2 of
                   None \<Rightarrow> None
                 | Some (e, cs3) \<Rightarrow>
                     (let m = of_nat (digitsVal ds) + f;
                          v = (if 0 \<le> e then m * 10 ^ nat e else m / 10 ^ nat (- e));
                          w = (if v \<le> 1 / 2 ^ 1075 then 0 else v)
                      in Some ((if neg then - w else w), cs3)))))"

text \<open>One token from the head of the input, with the input behind it.\<close>

definition next_token :: "char \<Rightarrow> string \<Rightarrow> (token \<times> string) option" where
  "next_token c cs =
     (if c = CHR ''{'' then Some (TLBrace, cs)
      else if c = CHR ''}'' then Some (TRBrace, cs)
      else if c = CHR ''['' then Some (TLBracket, cs)
      else if c = CHR '']'' then Some (TRBracket, cs)
      else if c = CHR '','' then Some (TComma, cs)
      else if c = CHR '':'' then Some (TColon, cs)
      else if c = CHR 0x22 then map_option (\<lambda>(s, r). (TString s, r)) (lex_string cs)
      else if c = CHR ''t'' then
        (if take 3 cs = ''rue'' then Some (TTrue, drop 3 cs) else None)
      else if c = CHR ''f'' then
        (if take 4 cs = ''alse'' then Some (TFalse, drop 4 cs) else None)
      else if c = CHR ''n'' then
        (if take 3 cs = ''ull'' then Some (TNull, drop 3 cs) else None)
      else map_option (\<lambda>(q, r). (TNumber q, r)) (lex_number (c # cs)))"

definition isJsonSpace :: "char \<Rightarrow> bool" where
  "isJsonSpace c = ((of_char c :: nat) \<in> {9, 10, 13, 32})"

text \<open>The tokens of a text; white space between them is dropped.\<close>

lemma lex_string_length: "lex_string cs = Some (s, r) \<Longrightarrow> length r < Suc (length cs)"
proof (induction cs arbitrary: s r rule: lex_string.induct)
  case 1
  then show ?case by simp
next
  case (2 c cs)
  then show ?case
    by (fastforce split: if_splits list.splits option.splits)
qed

lemma lex_fraction_length: "lex_fraction cs = Some (f, r) \<Longrightarrow> length r \<le> length cs"
  by (auto simp: lex_fraction_def Let_def length_dropWhile_le le_SucI
           split: list.splits if_splits)

lemma lex_exponent_length: "lex_exponent cs = Some (e, r) \<Longrightarrow> length r \<le> length cs"
  by (auto simp: lex_exponent_def Let_def length_dropWhile_le le_SucI
           split: list.splits if_splits intro: le_trans [OF length_dropWhile_le])

lemma dropWhile_shorter: "takeWhile P xs \<noteq> [] \<Longrightarrow> length (dropWhile P xs) < length xs"
  by (cases xs) (auto simp: less_Suc_eq_le length_dropWhile_le split: if_splits)

lemma lex_number_length:
  assumes "lex_number cs = Some (q, r)"
  shows "length r < length cs"
proof -
  obtain neg cs1 where cs1: "(case cs of [] \<Rightarrow> (False, cs)
      | c # cs' \<Rightarrow> if c = CHR ''-'' then (True, cs') else (False, cs)) = (neg, cs1)"
    by (cases "case cs of [] \<Rightarrow> (False, cs)
      | c # cs' \<Rightarrow> if c = CHR ''-'' then (True, cs') else (False, cs)") auto
  then have le: "length cs1 \<le> length cs"
    by (auto split: list.splits if_splits)
  from assms cs1 have ne: "takeWhile isDigit cs1 \<noteq> []"
    by (auto simp: lex_number_def Let_def split: if_splits)
  from assms cs1 ne obtain f cs2 e where
    f: "lex_fraction (dropWhile isDigit cs1) = Some (f, cs2)" and e: "lex_exponent cs2 = Some (e, r)"
    by (auto simp: lex_number_def Let_def split: if_splits option.splits)
  have "length r \<le> length cs2" using e by (rule lex_exponent_length)
  also have "\<dots> \<le> length (dropWhile isDigit cs1)" using f by (rule lex_fraction_length)
  also have "\<dots> < length cs1" using ne by (rule dropWhile_shorter)
  finally show ?thesis using le by simp
qed

lemma next_token_length: "next_token c cs = Some (t, r) \<Longrightarrow> length r < Suc (length cs)"
  by (auto simp: next_token_def split: if_splits
           dest: lex_string_length lex_number_length)

function tokens :: "string \<Rightarrow> token list option" where
  "tokens [] = Some []"
| "tokens (c # cs) =
     (if isJsonSpace c then tokens cs
      else (case next_token c cs of
              None \<Rightarrow> None
            | Some (t, r) \<Rightarrow> map_option (Cons t) (tokens r)))"
  by pat_completeness auto
termination
  by (relation "measure length") (auto dest: next_token_length)

text \<open>
  The values are built by a push-down automaton over the tokens. A frame of the stack is
  an array or an object under construction, its members in reverse; an object frame
  holds the key that waits for its value.
\<close>

datatype frame =
    FArr "jsvalue list"
  | FObj "(string \<times> jsvalue) list" "string option"

datatype mode =
    MValue
  | MArrStart
  | MObjStart
  | MKey
  | MColon
  | MAfter
  | MDone jsvalue

text \<open>A finished value goes into the frame on top of the stack, or is the result.\<close>

fun complete :: "jsvalue \<Rightarrow> frame list \<Rightarrow> (mode \<times> frame list) option" where
  "complete v [] = Some (MDone v, [])"
| "complete v (FArr xs # st) = Some (MAfter, FArr (v # xs) # st)"
| "complete v (FObj kvs (Some k) # st) = Some (MAfter, FObj ((k, v) # kvs) None # st)"
| "complete v (FObj kvs None # st) = None"

fun start_value :: "token \<Rightarrow> frame list \<Rightarrow> (mode \<times> frame list) option" where
  "start_value (TString s) st = complete (JStr s) st"
| "start_value (TNumber q) st = complete (JNum q) st"
| "start_value TTrue st = complete (JBool True) st"
| "start_value TFalse st = complete (JBool False) st"
| "start_value TNull st = complete JNull st"
| "start_value TLBracket st = Some (MArrStart, FArr [] # st)"
| "start_value TLBrace st = Some (MObjStart, FObj [] None # st)"
| "start_value t st = None"

fun pda_step :: "mode \<times> frame list \<Rightarrow> token \<Rightarrow> (mode \<times> frame list) option" where
  "pda_step (MValue, st) t = start_value t st"
| "pda_step (MArrStart, FArr xs # st) TRBracket = complete (JArr (rev xs)) st"
| "pda_step (MArrStart, st) t = start_value t st"
| "pda_step (MObjStart, FObj kvs p # st) TRBrace = complete (JObj (rev kvs)) st"
| "pda_step (MObjStart, FObj kvs p # st) (TString k) = Some (MColon, FObj kvs (Some k) # st)"
| "pda_step (MKey, FObj kvs p # st) (TString k) = Some (MColon, FObj kvs (Some k) # st)"
| "pda_step (MColon, st) TColon = Some (MValue, st)"
| "pda_step (MAfter, FArr xs # st) TComma = Some (MValue, FArr xs # st)"
| "pda_step (MAfter, FArr xs # st) TRBracket = complete (JArr (rev xs)) st"
| "pda_step (MAfter, FObj kvs p # st) TComma = Some (MKey, FObj kvs p # st)"
| "pda_step (MAfter, FObj kvs p # st) TRBrace = complete (JObj (rev kvs)) st"
| "pda_step s t = None"

fun pda_run :: "mode \<times> frame list \<Rightarrow> token list \<Rightarrow> (mode \<times> frame list) option" where
  "pda_run s [] = Some s"
| "pda_run s (t # ts) = (case pda_step s t of None \<Rightarrow> None | Some s' \<Rightarrow> pda_run s' ts)"

text \<open>The parser: one value, and nothing but white space around it.\<close>

definition json_parse :: "string \<Rightarrow> jsvalue option" where
  "json_parse text =
     (case tokens text of
        None \<Rightarrow> None
      | Some ts \<Rightarrow>
          (case pda_run (MValue, []) ts of
             Some (MDone v, st) \<Rightarrow> Some v
           | _ \<Rightarrow> None))"

section \<open>Exceptions\<close>

text \<open>
  The classes of the values thrown in the controller: the HTTP exceptions of the
  framework, \<^verbatim>\<open>HttpException\<close> built with a status of its own, the built-in
  \<^verbatim>\<open>SyntaxError\<close> and \<^verbatim>\<open>TypeError\<close>, and any other \<^verbatim>\<open>Error\<close>. All of them
  are instances of \<^verbatim>\<open>Error\<close> and carry a message. \<open>NonError\<close> is a thrown value
  that is no \<^verbatim>\<open>Error\<close>; only a collaborator can throw one.
\<close>

datatype exn_class =
    UnauthorizedException
  | ForbiddenException
  | NotFoundException
  | BadRequestException
  | InternalServerErrorException
  | HttpException nat
  | SyntaxError
  | TypeError
  | OtherError

datatype exn =
    Exn exn_class string
  | NonError

text \<open>\<^verbatim>\<open>error instanceof C\<close>.\<close>

fun instanceof :: "exn \<Rightarrow> exn_class \<Rightarrow> bool" where
  "instanceof (Exn c m) c' = (c = c')"
| "instanceof NonError c' = False"

text \<open>\<^verbatim>\<open>error instanceof Error ? error.message : "Unknown error"\<close>.\<close>

fun message_or_unknown :: "exn \<Rightarrow> string" where
  "message_or_unknown (Exn c m) = m"
| "message_or_unknown NonError = ''Unknown error''"

section \<open>Data model\<close>

text \<open>
  \<^verbatim>\<open>ArticleStatus\<close> is declared in the source (lines 4 to 8). The other types are
  imported there and their declarations are not part of it; each record below holds the
  fields that the controller reads or writes, under the names of the source with the
  record's prefix. Dates are numbers of milliseconds.
\<close>

datatype ArticleStatus = DRAFT | PUBLISHED | ARCHIVED

text \<open>
  Modelled from the spec: the caller (section 6, \<^verbatim>\<open>User{id, email, role}\<close>) with the roles
  \<^verbatim>\<open>AUTHOR\<close>, \<^verbatim>\<open>EDITOR\<close> and \<^verbatim>\<open>ADMIN\<close>. \<open>OTHER_ROLE\<close> is any value besides,
  which the role checks of the handlers refuse.
\<close>

datatype UserRole = AUTHOR | ADMIN | EDITOR | OTHER_ROLE

record User =
  user_id :: string
  user_email :: string
  user_role :: UserRole

text \<open>
  Modelled from the spec: \<^verbatim>\<open>Tag\<close>, \<^verbatim>\<open>File\<close> and \<^verbatim>\<open>Article\<close> of section 3. The name
  fields of a tag hold what the request gave (\<^verbatim>\<open>tagData.name\<close> of a parsed JSON
  value). The path of a file may be absent (\<^verbatim>\<open>uploadedFile.path ?? ""\<close>); the tags,
  images and videos of an article may be (\<^verbatim>\<open>existingArticle.images || []\<close>). A related
  article has the fields that \<^verbatim>\<open>findById\<close> copies.
\<close>

record ITag =
  tag_id :: string
  tag_name :: jsvalue
  tag_nameAr :: jsvalue
  tag_createdAt :: nat
  tag_updatedAt :: nat

record IFile =
  file_id :: string
  file_url :: string
  file_filename :: string
  file_mimetype :: string
  file_size :: nat
  file_path :: "string option"
  file_createdAt :: nat
  file_updatedAt :: nat

record Category =
  category_id :: string
  category_name :: string
  category_nameAr :: string

record RelatedArticle =
  related_id :: string
  related_title :: string
  related_titleAr :: string
  related_summary :: string
  related_summaryAr :: string
  related_categoryId :: "string option"
  related_category :: "Category option"
  related_createdAt :: nat
  related_updatedAt :: nat
  related_publishedAt :: "nat option"
  related_views :: nat
  related_slug :: string
  related_slugAr :: "string option"
  related_featuredMedia :: "IFile option"
  related_tags :: "ITag list option"

record Article =
  article_id :: string
  article_title :: string
  article_titleAr :: string
  article_content :: string
  article_contentAr :: string
  article_summary :: string
  article_summaryAr :: string
  article_authorId :: string
  article_authorEmail :: string
  article_category :: "Category option"
  article_tags :: "ITag list option"
  article_createdAt :: nat
  article_updatedAt :: nat
  article_publishedAt :: "nat option"
  article_status :: ArticleStatus
  article_views :: nat
  article_slug :: string
  article_slugAr :: "string option"
  article_images :: "IFile list option"
  article_videos :: "IFile list option"
  article_featuredMedia :: "IFile option"
  article_relatedArticles :: "RelatedArticle list"

text \<open>A file of the multipart request. \<open>mf_buffer\<close> is \<open>None\<close> when the file has no bytes attached.\<close>

record MulterFile =
  mf_buffer :: "string option"
  mf_originalname :: string
  mf_mimetype :: string
  mf_size :: nat

text \<open>
  One field of the \<^verbatim>\<open>files\<close> argument of \<^verbatim>\<open>create\<close>, which tests it for being a
  string and for being an array.
\<close>

datatype FileField =
    NoField
  | StringField string
  | FilesField "MulterFile list"

record CreateFiles =
  cf_featuredMedia :: FileField
  cf_images :: FileField
  cf_videos :: FileField

text \<open>
  The \<^verbatim>\<open>files\<close> argument of \<^verbatim>\<open>update\<close>, which uses its fields as the arrays their
  type declares; \<open>None\<close> is an absent field.
\<close>

record UpdateFiles =
  uf_images :: "MulterFile list option"
  uf_videos :: "MulterFile list option"
  uf_featuredMedia :: "MulterFile list option"

text \<open>The \<^verbatim>\<open>tagIds\<close> field of \<^verbatim>\<open>CreateArticleDto\<close>, of type \<^verbatim>\<open>string | string[]\<close>.\<close>

datatype TagIdsField =
    NoTagIds
  | TagIdsArray "string list"
  | TagIdsString string

text \<open>
  \<^verbatim>\<open>CreateArticleDto\<close> is declared in the source (lines 27 to 132); the file fields
  come with the \<^verbatim>\<open>files\<close> argument. Modelled from the spec: \<^verbatim>\<open>UpdateArticleDto\<close>
  (section 4.3), the content fields and the three removal lists, and the commands of the
  use cases, with the fields that the object literals of \<^verbatim>\<open>create\<close> and \<^verbatim>\<open>update\<close> set.
\<close>

record CreateArticleDto =
  cd_title :: string
  cd_titleAr :: string
  cd_content :: "string option"
  cd_contentAr :: "string option"
  cd_summary :: "string option"
  cd_summaryAr :: "string option"
  cd_categoryId :: "string option"
  cd_status :: "ArticleStatus option"
  cd_tags :: "string option"
  cd_tagIds :: TagIdsField

record UpdateArticleDto =
  ud_title :: "string option"
  ud_titleAr :: "string option"
  ud_content :: "string option"
  ud_contentAr :: "string option"
  ud_summary :: "string option"
  ud_summaryAr :: "string option"
  ud_categoryId :: "string option"
  ud_removedImages :: jsvalue
  ud_removedVideos :: jsvalue
  ud_removedTags :: jsvalue
  ud_tags :: jsvalue

record CreateArticleCommand =
  cc_title :: string
  cc_titleAr :: string
  cc_content :: "string option"
  cc_contentAr :: "string option"
  cc_summary :: "string option"
  cc_summaryAr :: "string option"
  cc_authorId :: string
  cc_authorEmail :: string
  cc_categoryId :: "string option"
  cc_status :: ArticleStatus
  cc_images :: "IFile list"
  cc_videos :: "IFile list"
  cc_featuredMedia :: "IFile option"
  cc_featuredMediaId :: "string option"
  cc_tags :: "ITag list"

text \<open>
  A tag of an update command: a tag entity, or the bare \<^verbatim>\<open>{ id }\<close> that \<^verbatim>\<open>update\<close>
  builds for an identifier of the request.
\<close>

datatype TagRef =
    Tag ITag
  | TagIdOnly jsvalue

text \<open>The update command; \<open>None\<close> is a field the object literal leaves out or sets to \<^verbatim>\<open>undefined\<close>.\<close>

record UpdateArticleCommand =
  uc_id :: string
  uc_title :: "string option"
  uc_titleAr :: "string option"
  uc_content :: "string option"
  uc_contentAr :: "string option"
  uc_summary :: "string option"
  uc_summaryAr :: "string option"
  uc_categoryId :: "string option"
  uc_images :: "IFile list option"
  uc_videos :: "IFile list option"
  uc_tags :: "TagRef list option"
  uc_tagsToRemove :: "jsvalue list option"
  uc_featuredMedia :: "IFile option"
  uc_featuredMediaId :: "string option"

text \<open>The response shapes that \<^verbatim>\<open>mapToDisplayDto\<close> and \<^verbatim>\<open>findById\<close> build.\<close>

record TagDto =
  td_id :: string
  td_name :: jsvalue
  td_nameAr :: jsvalue

record MediaDto =
  md_id :: string
  md_url :: string

record DisplayArticleDto =
  dd_id :: string
  dd_title :: string
  dd_titleAr :: string
  dd_content :: string
  dd_contentAr :: string
  dd_summary :: string
  dd_summaryAr :: string
  dd_authorId :: string
  dd_authorEmail :: string
  dd_categoryId :: string
  dd_category :: "Category option"
  dd_tags :: "TagDto list option"
  dd_createdAt :: nat
  dd_updatedAt :: nat
  dd_publishedAt :: "nat option"
  dd_status :: ArticleStatus
  dd_views :: nat
  dd_slug :: string
  dd_slugAr :: string
  dd_images :: "MediaDto list option"
  dd_videos :: "MediaDto list option"
  dd_featuredMedia :: "MediaDto option"

record RelatedArticleDto =
  rd_id :: string
  rd_title :: string
  rd_titleAr :: string
  rd_summary :: string
  rd_summaryAr :: string
  rd_categoryId :: "string option"
  rd_category :: "Category option"
  rd_createdAt :: nat
  rd_updatedAt :: nat
  rd_publishedAt :: "nat option"
  rd_views :: nat
  rd_slug :: string
  rd_slugAr :: "string option"
  rd_featuredMedia :: "MediaDto option"
  rd_tags :: "TagDto list option"

text \<open>\<^verbatim>\<open>{ ...mainArticle, relatedArticles }\<close>.\<close>

record DisplayArticleWithRelatedDto =
  dr_article :: DisplayArticleDto
  dr_relatedArticles :: "RelatedArticleDto list"

section \<open>Collaborators and effects\<close>

text \<open>
  The use cases, the tag repository, the file uploader and the file service are injected
  into the controller; their code is not part of it. A run of a handler is modelled
  against an environment that answers each call, and it leaves a trace: the calls in
  the order they were issued, each with its outcome, and the lines written with
  \<^verbatim>\<open>console.error\<close>.
\<close>

datatype call =
    CreateArticle CreateArticleCommand User
  | UpdateArticle UpdateArticleCommand
  | DeleteArticle string
  | GetArticleById string
  | TagFindById string
  | TagCreate ITag
  | UploadFile "string option" string string
  | DeleteFile jsvalue

datatype retval =
    RUnit
  | RArticle Article
  | RArticleOpt "Article option"
  | RTag "ITag option"
  | RFile IFile

text \<open>The arguments of one \<^verbatim>\<open>console.error\<close>; a template literal is the list of its parts.\<close>

datatype log_part =
    LStr string
  | LVal jsvalue
  | LExn exn

datatype event =
    Called call "exn + retval"
  | Logged "log_part list"

type_synonym trace = "event list"

text \<open>
  The environment. An answer may depend on everything that happened before, so each
  collaborator reads the trace; \<open>Inl\<close> is a rejected promise. \<^verbatim>\<open>JSON.parse\<close>,
  \<^verbatim>\<open>crypto.randomUUID\<close> and the clock of \<^verbatim>\<open>new Date()\<close> belong to the run-time
  system and stand here as well.
\<close>

record env =
  JSON_parse :: "string \<Rightarrow> jsvalue option"
  randomUUID :: "trace \<Rightarrow> string"
  now :: "trace \<Rightarrow> nat"
  createArticleUsecase :: "trace \<Rightarrow> CreateArticleCommand \<Rightarrow> User \<Rightarrow> exn + Article"
  updateArticleUsecase :: "trace \<Rightarrow> UpdateArticleCommand \<Rightarrow> exn + unit"
  deleteArticleUsecase :: "trace \<Rightarrow> string \<Rightarrow> exn + unit"
  getArticleByIdQuery :: "trace \<Rightarrow> string \<Rightarrow> exn + Article option"
  tagRepository_findById :: "trace \<Rightarrow> string \<Rightarrow> exn + ITag option"
  tagRepository_create :: "trace \<Rightarrow> ITag \<Rightarrow> exn + unit"
  fileUploader_uploadFile :: "trace \<Rightarrow> string option \<Rightarrow> string \<Rightarrow> string \<Rightarrow> exn + IFile"
  fileService_deleteFile :: "trace \<Rightarrow> jsvalue \<Rightarrow> exn + unit"

text \<open>
  An asynchronous computation: from the trace so far to its outcome, a thrown value or
  a result, and the trace extended.
\<close>

type_synonym 'a io = "trace \<Rightarrow> (exn + 'a) \<times> trace"

definition return_io :: "'a \<Rightarrow> 'a io" where
  "return_io x = (\<lambda>tr. (Inr x, tr))"

definition throw :: "exn \<Rightarrow> 'a io" where
  "throw e = (\<lambda>tr. (Inl e, tr))"

text \<open>\<^verbatim>\<open>const x = await m; k(x)\<close>: a rejection of \<open>m\<close> ends the computation.\<close>

definition await :: "'a io \<Rightarrow> ('a \<Rightarrow> 'b io) \<Rightarrow> 'b io" where
  "await m k = (\<lambda>tr. case m tr of
                       (Inl e, tr') \<Rightarrow> (Inl e, tr')
                     | (Inr x, tr') \<Rightarrow> k x tr')"

text \<open>\<^verbatim>\<open>try { m } catch (error) { h(error) }\<close>.\<close>

definition try_catch :: "'a io \<Rightarrow> (exn \<Rightarrow> 'a io) \<Rightarrow> 'a io" where
  "try_catch m h = (\<lambda>tr. case m tr of
                           (Inl e, tr') \<Rightarrow> h e tr'
                         | (Inr x, tr') \<Rightarrow> (Inr x, tr'))"

text \<open>A pure step that may throw.\<close>

definition lift :: "exn + 'a \<Rightarrow> 'a io" where
  "lift r = (\<lambda>tr. (r, tr))"

text \<open>One call of a collaborator: the environment answers, the trace records call and answer.\<close>

definition perform :: "call \<Rightarrow> (trace \<Rightarrow> exn + 'a) \<Rightarrow> ('a \<Rightarrow> retval) \<Rightarrow> 'a io" where
  "perform c answer wrap =
     (\<lambda>tr. (answer tr, tr @ [Called c (map_sum (\<lambda>e. e) wrap (answer tr))]))"

definition console_error :: "log_part list \<Rightarrow> unit io" where
  "console_error parts = (\<lambda>tr. (Inr (), tr @ [Logged parts]))"

text \<open>Reading the clock and drawing an identifier leave no trace.\<close>

definition new_Date :: "env \<Rightarrow> nat io" where
  "new_Date env = (\<lambda>tr. (Inr (now env tr), tr))"

definition crypto_randomUUID :: "env \<Rightarrow> string io" where
  "crypto_randomUUID env = (\<lambda>tr. (Inr (randomUUID env tr), tr))"

text \<open>
  \<^verbatim>\<open>Promise.all(xs.map(f))\<close> where each \<open>f x\<close> issues one call: \<^verbatim>\<open>map\<close> starts every
  computation, so every call is issued, in the order of the list, whatever the outcomes.
  \<open>settle\<close> issues them and collects the outcomes in the order of the list.
  \<^verbatim>\<open>Promise.all\<close> resolves with all results or rejects; when several computations
  reject it rejects with the one that settles first, and the model takes the first of the
  list.
\<close>

fun settle :: "'a io list \<Rightarrow> trace \<Rightarrow> (exn + 'a) list \<times> trace" where
  "settle [] tr = ([], tr)"
| "settle (m # ms) tr =
     (case m tr of
        (r, tr') \<Rightarrow> (case settle ms tr' of (rs, tr'') \<Rightarrow> (r # rs, tr'')))"

fun gather :: "(exn + 'a) list \<Rightarrow> exn + 'a list" where
  "gather [] = Inr []"
| "gather (Inl e # rs) = Inl e"
| "gather (Inr x # rs) = (case gather rs of Inl e \<Rightarrow> Inl e | Inr xs \<Rightarrow> Inr (x # xs))"

definition promise_all :: "'a io list \<Rightarrow> 'a list io" where
  "promise_all ms = (\<lambda>tr. case settle ms tr of (rs, tr') \<Rightarrow> (gather rs, tr'))"

text \<open>The calls of the collaborators.\<close>

definition createArticleUsecase_execute :: "env \<Rightarrow> CreateArticleCommand \<Rightarrow> User \<Rightarrow> Article io" where
  "createArticleUsecase_execute env command user =
     perform (CreateArticle command user) (\<lambda>tr. createArticleUsecase env tr command user) RArticle"

definition updateArticleUsecase_execute :: "env \<Rightarrow> UpdateArticleCommand \<Rightarrow> unit io" where
  "updateArticleUsecase_execute env command =
     perform (UpdateArticle command) (\<lambda>tr. updateArticleUsecase env tr command) (\<lambda>u. RUnit)"

definition deleteArticleUsecase_execute :: "env \<Rightarrow> string \<Rightarrow> unit io" where
  "deleteArticleUsecase_execute env i =
     perform (DeleteArticle i) (\<lambda>tr. deleteArticleUsecase env tr i) (\<lambda>u. RUnit)"

definition getArticleByIdQuery_execute :: "env \<Rightarrow> string \<Rightarrow> Article option io" where
  "getArticleByIdQuery_execute env i =
     perform (GetArticleById i) (\<lambda>tr. getArticleByIdQuery env tr i) RArticleOpt"

definition tagRepository_findById_call :: "env \<Rightarrow> string \<Rightarrow> ITag option io" where
  "tagRepository_findById_call env tagId =
     perform (TagFindById tagId) (\<lambda>tr. tagRepository_findById env tr tagId) RTag"

definition tagRepository_create_call :: "env \<Rightarrow> ITag \<Rightarrow> unit io" where
  "tagRepository_create_call env tag =
     perform (TagCreate tag) (\<lambda>tr. tagRepository_create env tr tag) (\<lambda>u. RUnit)"

definition uploadFile :: "env \<Rightarrow> string option \<Rightarrow> string \<Rightarrow> string \<Rightarrow> IFile io" where
  "uploadFile env buffer originalname mimetype =
     perform (UploadFile buffer originalname mimetype)
       (\<lambda>tr. fileUploader_uploadFile env tr buffer originalname mimetype) RFile"

definition deleteFile :: "env \<Rightarrow> jsvalue \<Rightarrow> unit io" where
  "deleteFile env fileId =
     perform (DeleteFile fileId) (\<lambda>tr. fileService_deleteFile env tr fileId) (\<lambda>u. RUnit)"

section \<open>Parsing of request fields\<close>

text \<open>
  \<^verbatim>\<open>parseArrayField\<close> (lines 1035 to 1070). Nothing inside its outer \<^verbatim>\<open>try\<close> can
  throw but \<^verbatim>\<open>JSON.parse\<close>, which the inner \<^verbatim>\<open>try\<close> catches, so the outer
  \<^verbatim>\<open>catch\<close> has no branch here.
\<close>

definition parseArrayField :: "env \<Rightarrow> jsvalue \<Rightarrow> jsvalue list" where
  "parseArrayField env val =
     (if \<not> truthy val then []
      else (case val of
              JArr xs \<Rightarrow> filter notNullish (flat xs)
            | JStr s \<Rightarrow>
                (case JSON_parse env s of
                   Some parsed \<Rightarrow>
                     (case parsed of
                        JArr ys \<Rightarrow> filter notNullish (flat ys)
                      | _ \<Rightarrow> if truthy parsed then [parsed] else [])
                 | None \<Rightarrow>
                     map JStr (filter (\<lambda>item. item \<noteq> []) (map trim (split_comma s))))
            | _ \<Rightarrow> []))"

text \<open>
  The inline tags of \<^verbatim>\<open>create\<close> (lines 401 to 427). \<open>validateTags\<close> is the
  \<^verbatim>\<open>forEach\<close>: reading \<^verbatim>\<open>name\<close> of \<^verbatim>\<open>null\<close> is a TypeError (the message is the
  one of V8), a name that is not truthy a BadRequest.
\<close>

fun validateTags :: "jsvalue list \<Rightarrow> exn + unit" where
  "validateTags [] = Inr ()"
| "validateTags (tagData # rest) =
     (case get_prop tagData ''name'' of
        None \<Rightarrow> Inl (Exn TypeError ''Cannot read properties of null (reading 'name')'')
      | Some n \<Rightarrow>
          (if \<not> truthy n then Inl (Exn BadRequestException ''Each tag must have a name'')
           else validateTags rest))"

text \<open>
  The two attempts of \<^verbatim>\<open>JSON.parse\<close>: the whole string, then the string in
  brackets. \<open>None\<close> is the SyntaxError of the second attempt.
\<close>

definition parseJsonOrWrapped :: "env \<Rightarrow> string \<Rightarrow> jsvalue option" where
  "parseJsonOrWrapped env s =
     (case JSON_parse env s of
        Some parsed \<Rightarrow> Some parsed
      | None \<Rightarrow> JSON_parse env (''['' @ s @ '']''))"

definition parseTags :: "env \<Rightarrow> string option \<Rightarrow> exn + jsvalue list" where
  "parseTags env tags =
     (case tags of
        None \<Rightarrow> Inr []
      | Some s \<Rightarrow>
          (if s = [] then Inr []
           else
             (case parseJsonOrWrapped env s of
                None \<Rightarrow> Inl (Exn BadRequestException ''Invalid JSON format for tags'')
              | Some parsed \<Rightarrow>
                  (let parsedTags = (case parsed of JArr xs \<Rightarrow> xs | _ \<Rightarrow> [parsed])
                   in case validateTags parsedTags of
                        Inl error \<Rightarrow>
                          (if instanceof error SyntaxError
                           then Inl (Exn BadRequestException ''Invalid JSON format for tags'')
                           else Inl error)
                      | Inr u \<Rightarrow> Inr parsedTags))))"

text \<open>The tag identifiers of \<^verbatim>\<open>create\<close> (lines 429 to 439).\<close>

definition parseTagIds :: "TagIdsField \<Rightarrow> string list" where
  "parseTagIds tagIds =
     (case tagIds of
        NoTagIds \<Rightarrow> []
      | TagIdsArray ids \<Rightarrow> ids
      | TagIdsString s \<Rightarrow> if s = [] then [] else map trim (split_comma s))"

section \<open>The handlers\<close>

subsection \<open>mapToDisplayDto\<close>

definition tagDto :: "ITag \<Rightarrow> TagDto" where
  "tagDto tag = \<lparr>td_id = tag_id tag, td_name = tag_name tag, td_nameAr = tag_nameAr tag\<rparr>"

definition mediaDto :: "IFile \<Rightarrow> MediaDto" where
  "mediaDto file = \<lparr>md_id = file_id file, md_url = file_url file\<rparr>"

definition mapToDisplayDto :: "Article \<Rightarrow> DisplayArticleDto" where
  "mapToDisplayDto article =
     \<lparr>dd_id = article_id article,
      dd_title = article_title article,
      dd_titleAr = article_titleAr article,
      dd_content = article_content article,
      dd_contentAr = article_contentAr article,
      dd_summary = article_summary article,
      dd_summaryAr = article_summaryAr article,
      dd_authorId = article_authorId article,
      dd_authorEmail = article_authorEmail article,
      dd_categoryId = (case article_category article of None \<Rightarrow> [] | Some c \<Rightarrow> category_id c),
      dd_category = article_category article,
      dd_tags = map_option (map tagDto) (article_tags article),
      dd_createdAt = article_createdAt article,
      dd_updatedAt = article_updatedAt article,
      dd_publishedAt = article_publishedAt article,
      dd_status = article_status article,
      dd_views = article_views article,
      dd_slug = article_slug article,
      dd_slugAr = (case article_slugAr article of None \<Rightarrow> [] | Some s \<Rightarrow> s),
      dd_images = map_option (map mediaDto) (article_images article),
      dd_videos = map_option (map mediaDto) (article_videos article),
      dd_featuredMedia = map_option mediaDto (article_featuredMedia article)\<rparr>"

text \<open>
  \<^verbatim>\<open>this.mapToDisplayDto(x)\<close> for the result \<open>x\<close> of the query, which may be
  \<^verbatim>\<open>null\<close>: reading its \<^verbatim>\<open>id\<close> is then a TypeError.
\<close>

definition displayOf :: "Article option \<Rightarrow> DisplayArticleDto io" where
  "displayOf x =
     (case x of
        None \<Rightarrow> throw (Exn TypeError ''Cannot read properties of null (reading 'id')'')
      | Some article \<Rightarrow> return_io (mapToDisplayDto article))"

subsection \<open>create (lines 360 to 618)\<close>

text \<open>An update command with nothing but the identifier.\<close>

definition updateOf :: "string \<Rightarrow> UpdateArticleCommand" where
  "updateOf i =
     \<lparr>uc_id = i, uc_title = None, uc_titleAr = None, uc_content = None, uc_contentAr = None,
      uc_summary = None, uc_summaryAr = None, uc_categoryId = None, uc_images = None,
      uc_videos = None, uc_tags = None, uc_tagsToRemove = None, uc_featuredMedia = None,
      uc_featuredMediaId = None\<rparr>"

text \<open>The file record that \<^verbatim>\<open>create\<close> builds from an upload and the request's file.\<close>

definition fileRecord :: "IFile \<Rightarrow> MulterFile \<Rightarrow> nat \<Rightarrow> IFile" where
  "fileRecord uploadedFile file date =
     \<lparr>file_id = file_id uploadedFile,
      file_url = file_url uploadedFile,
      file_filename = mf_originalname file,
      file_mimetype = mf_mimetype file,
      file_size = mf_size file,
      file_path = Some (case file_path uploadedFile of None \<Rightarrow> [] | Some p \<Rightarrow> p),
      file_createdAt = date,
      file_updatedAt = date\<rparr>"

text \<open>\<^verbatim>\<open>files?.images && typeof files.images === "string"\<close>.\<close>

fun isTruthyString :: "FileField \<Rightarrow> bool" where
  "isTruthyString (StringField s) = (s \<noteq> [])"
| "isTruthyString f = False"

text \<open>Lines 467 to 478: one existing tag.\<close>

definition fetchTag :: "env \<Rightarrow> string \<Rightarrow> ITag io" where
  "fetchTag env tagId =
     await (tagRepository_findById_call env tagId) (\<lambda>tag.
       case tag of
         None \<Rightarrow> throw (Exn BadRequestException (''Tag with ID '' @ tagId @ '' not found''))
       | Some t \<Rightarrow> return_io t)"

text \<open>Lines 481 to 498: one new tag.\<close>

definition createTag :: "env \<Rightarrow> jsvalue \<Rightarrow> ITag io" where
  "createTag env tagData =
     await (new_Date env) (\<lambda>date.
     await (crypto_randomUUID env) (\<lambda>tagId.
       case (get_prop tagData ''name'', get_prop tagData ''nameAr'') of
         (Some n, Some nAr) \<Rightarrow>
           (let tag = \<lparr>tag_id = tagId, tag_name = n, tag_nameAr = nAr,
                       tag_createdAt = date, tag_updatedAt = date\<rparr>
            in await (tagRepository_create_call env tag) (\<lambda>u. return_io tag))
       | _ \<Rightarrow> throw (Exn TypeError ''Cannot read properties of null (reading 'name')'')))"

text \<open>Lines 509 to 536: the featured media.\<close>

definition createFeatured :: "env \<Rightarrow> Article \<Rightarrow> FileField \<Rightarrow> unit io" where
  "createFeatured env article field =
     (case field of
        FilesField (file # rest) \<Rightarrow>
          (case mf_buffer file of
             None \<Rightarrow> return_io ()
           | Some buffer \<Rightarrow>
               await (uploadFile env (Some buffer) (mf_originalname file) (mf_mimetype file))
                 (\<lambda>uploadedFeaturedMedia.
               await (new_Date env) (\<lambda>date.
                 updateArticleUsecase_execute env
                   ((updateOf (article_id article))
                      \<lparr>uc_featuredMedia := Some (fileRecord uploadedFeaturedMedia file date),
                       uc_featuredMediaId := Some (file_id uploadedFeaturedMedia)\<rparr>))))
      | _ \<Rightarrow> return_io ())"

text \<open>
  Lines 541 to 559 and 565 to 583: the loop over the files of a group. A file without
  a buffer takes the \<^verbatim>\<open>continue\<close>.
\<close>

fun uploadEach :: "env \<Rightarrow> MulterFile list \<Rightarrow> IFile list io" where
  "uploadEach env [] = return_io []"
| "uploadEach env (file # rest) =
     (case mf_buffer file of
        None \<Rightarrow> uploadEach env rest
      | Some buffer \<Rightarrow>
          await (uploadFile env (Some buffer) (mf_originalname file) (mf_mimetype file))
            (\<lambda>uploadedFile.
          await (new_Date env) (\<lambda>date.
          await (uploadEach env rest) (\<lambda>more.
            return_io (fileRecord uploadedFile file date # more)))))"

definition uploadGroup :: "env \<Rightarrow> FileField \<Rightarrow> IFile list io" where
  "uploadGroup env field =
     (case field of
        FilesField fs \<Rightarrow> uploadEach env fs
      | _ \<Rightarrow> return_io [])"

text \<open>Lines 464 to 599: the body of the inner \<^verbatim>\<open>try\<close>, after the article was created.\<close>

definition createBody ::
  "env \<Rightarrow> CreateFiles \<Rightarrow> jsvalue list \<Rightarrow> string list \<Rightarrow> Article \<Rightarrow> DisplayArticleDto io" where
  "createBody env files parsedTags parsedTagIds article =
     await (if parsedTagIds \<noteq> [] then promise_all (map (fetchTag env) parsedTagIds)
            else return_io []) (\<lambda>existingTags.
     await (if parsedTags \<noteq> [] then promise_all (map (createTag env) parsedTags)
            else return_io []) (\<lambda>newTags.
     await (if existingTags @ newTags \<noteq> []
            then updateArticleUsecase_execute env
                   ((updateOf (article_id article))
                      \<lparr>uc_tags := Some (map Tag (existingTags @ newTags))\<rparr>)
            else return_io ()) (\<lambda>u.
     await (createFeatured env article (cf_featuredMedia files)) (\<lambda>u.
     await (uploadGroup env (cf_images files)) (\<lambda>uploadedImages.
     await (uploadGroup env (cf_videos files)) (\<lambda>uploadedVideos.
     await (if uploadedImages \<noteq> [] \<or> uploadedVideos \<noteq> []
            then updateArticleUsecase_execute env
                   ((updateOf (article_id article))
                      \<lparr>uc_images := Some uploadedImages, uc_videos := Some uploadedVideos\<rparr>)
            else return_io ()) (\<lambda>u.
     await (getArticleByIdQuery_execute env (article_id article)) (\<lambda>updatedArticle.
       displayOf updatedArticle))))))))"

text \<open>Lines 600 to 609: the inner \<^verbatim>\<open>catch\<close>.\<close>

definition createCompensate :: "env \<Rightarrow> Article \<Rightarrow> exn \<Rightarrow> DisplayArticleDto io" where
  "createCompensate env article uploadError =
     await (deleteArticleUsecase_execute env (article_id article)) (\<lambda>u.
     await (console_error [LStr ''File upload error:'', LExn uploadError]) (\<lambda>u.
       throw (Exn BadRequestException
                (''Failed to upload files: '' @ message_or_unknown uploadError))))"

definition createCommand :: "CreateArticleDto \<Rightarrow> User \<Rightarrow> CreateArticleCommand" where
  "createCommand dto user =
     \<lparr>cc_title = cd_title dto,
      cc_titleAr = cd_titleAr dto,
      cc_content = cd_content dto,
      cc_contentAr = cd_contentAr dto,
      cc_summary = cd_summary dto,
      cc_summaryAr = cd_summaryAr dto,
      cc_authorId = user_id user,
      cc_authorEmail = user_email user,
      cc_categoryId = cd_categoryId dto,
      cc_status = (case cd_status dto of None \<Rightarrow> DRAFT | Some st \<Rightarrow> st),
      cc_images = [],
      cc_videos = [],
      cc_featuredMedia = None,
      cc_featuredMediaId = None,
      cc_tags = []\<rparr>"

text \<open>Lines 371 to 609: the body of the outer \<^verbatim>\<open>try\<close>.\<close>

definition createTry ::
  "env \<Rightarrow> CreateArticleDto \<Rightarrow> CreateFiles \<Rightarrow> User option \<Rightarrow> DisplayArticleDto io" where
  "createTry env dto files user =
     (case user of
        None \<Rightarrow> throw (Exn UnauthorizedException ''Authentication required'')
      | Some u \<Rightarrow>
          if user_role u \<notin> {AUTHOR, ADMIN, EDITOR}
          then throw (Exn ForbiddenException ''You are not authorized to perform this action.'')
          else if isTruthyString (cf_images files)
          then throw (Exn BadRequestException ''Images must be file uploads, not strings'')
          else if isTruthyString (cf_videos files)
          then throw (Exn BadRequestException ''Videos must be file uploads, not strings'')
          else if isTruthyString (cf_featuredMedia files)
          then throw (Exn BadRequestException
                        ''Featured media must be a file upload, not a string'')
          else
            await (lift (parseTags env (cd_tags dto))) (\<lambda>parsedTags.
            await (createArticleUsecase_execute env (createCommand dto u) u) (\<lambda>article.
              try_catch
                (createBody env files parsedTags (parseTagIds (cd_tagIds dto)) article)
                (createCompensate env article))))"

text \<open>Lines 370 to 617: the handler, with the outer \<^verbatim>\<open>catch\<close>.\<close>

definition create ::
  "env \<Rightarrow> CreateArticleDto \<Rightarrow> CreateFiles \<Rightarrow> User option \<Rightarrow> DisplayArticleDto io" where
  "create env dto files user =
     try_catch (createTry env dto files user) (\<lambda>error.
       await (console_error [LStr ''Article creation error:'', LExn error]) (\<lambda>u.
         throw (Exn BadRequestException
                  (''Failed to create article: '' @ message_or_unknown error))))"

subsection \<open>update (lines 1101 to 1257)\<close>

text \<open>
  Lines 1138 to 1153: the deletions of the removed images and videos, all in one
  \<^verbatim>\<open>Promise.all\<close>. Every call is issued; a rejected one is caught and logged, the
  lines in the order of the list.
\<close>

fun logFailures :: "(string \<times> jsvalue) list \<Rightarrow> (exn + unit) list \<Rightarrow> unit io" where
  "logFailures ((kind, fileId) # targets) (Inl error # rs) =
     await (console_error [LStr (''Failed to delete '' @ kind @ '' ''), LVal fileId, LStr '':'',
                           LExn error]) (\<lambda>u. logFailures targets rs)"
| "logFailures (target # targets) (Inr u # rs) = logFailures targets rs"
| "logFailures targets rs = return_io ()"

definition deleteRemoved :: "env \<Rightarrow> jsvalue list \<Rightarrow> jsvalue list \<Rightarrow> unit io" where
  "deleteRemoved env removedImageIds removedVideoIds =
     (let targets = map (Pair ''image'') removedImageIds @ map (Pair ''video'') removedVideoIds
      in (\<lambda>tr. case settle (map (\<lambda>(kind, fileId). deleteFile env fileId) targets) tr of
                  (rs, tr') \<Rightarrow> logFailures targets rs tr'))"

text \<open>
  Lines 1156 to 1172: the featured media. The first file of the field is uploaded with
  whatever buffer it has; then the old featured media is deleted, a failure logged.
\<close>

definition updateFeatured :: "env \<Rightarrow> Article \<Rightarrow> MulterFile list option \<Rightarrow> IFile option io" where
  "updateFeatured env existingArticle field =
     (case field of
        Some (file # rest) \<Rightarrow>
          await (uploadFile env (mf_buffer file) (mf_originalname file) (mf_mimetype file))
            (\<lambda>uploadedFeaturedMedia.
          await (case article_featuredMedia existingArticle of
                   None \<Rightarrow> return_io ()
                 | Some old \<Rightarrow>
                     try_catch (deleteFile env (JStr (file_id old))) (\<lambda>error.
                       console_error [LStr ''Failed to delete old featured media:'', LExn error]))
            (\<lambda>u. return_io (Some uploadedFeaturedMedia)))
      | _ \<Rightarrow> return_io None)"

text \<open>
  Lines 1175 to 1197: the new files of a group, all in one \<^verbatim>\<open>Promise.all\<close>. Every
  file of the field is uploaded with whatever buffer it has.
\<close>

definition updateUploads :: "env \<Rightarrow> MulterFile list option \<Rightarrow> IFile list io" where
  "updateUploads env field =
     (case field of
        None \<Rightarrow> return_io []
      | Some fs \<Rightarrow>
          promise_all
            (map (\<lambda>file. uploadFile env (mf_buffer file) (mf_originalname file) (mf_mimetype file))
               fs))"

text \<open>Lines 1199 to 1238: the tags and the command.\<close>

definition updateCommand ::
  "string \<Rightarrow> UpdateArticleDto \<Rightarrow> Article \<Rightarrow> jsvalue list \<Rightarrow> jsvalue list \<Rightarrow> jsvalue list \<Rightarrow>
   jsvalue list \<Rightarrow> IFile option \<Rightarrow> IFile list \<Rightarrow> IFile list \<Rightarrow> UpdateArticleCommand" where
  "updateCommand i dto existingArticle removedImageIds removedVideoIds removedTagIds tagIds
     uploadedFeaturedMedia uploadedImages uploadedVideos =
     (let existingTags = (case article_tags existingArticle of None \<Rightarrow> [] | Some ts \<Rightarrow> ts);
          remainingTags = filter (\<lambda>tag. \<not> array_includes removedTagIds (tag_id tag)) existingTags;
          newTags = map TagIdOnly
                      (filter (\<lambda>tagId. \<not> (\<exists>existingTag \<in> set existingTags.
                                            JStr (tag_id existingTag) = tagId)) tagIds)
      in \<lparr>uc_id = i,
          uc_title = ud_title dto,
          uc_titleAr = ud_titleAr dto,
          uc_content = ud_content dto,
          uc_contentAr = ud_contentAr dto,
          uc_summary = ud_summary dto,
          uc_summaryAr = ud_summaryAr dto,
          uc_categoryId = ud_categoryId dto,
          uc_images =
            Some (filter (\<lambda>file. \<not> array_includes removedImageIds (file_id file))
                    (case article_images existingArticle of None \<Rightarrow> [] | Some fs \<Rightarrow> fs)
                  @ uploadedImages),
          uc_videos =
            Some (filter (\<lambda>file. \<not> array_includes removedVideoIds (file_id file))
                    (case article_videos existingArticle of None \<Rightarrow> [] | Some fs \<Rightarrow> fs)
                  @ uploadedVideos),
          uc_tags = Some (map Tag remainingTags @ newTags),
          uc_tagsToRemove = Some removedTagIds,
          uc_featuredMedia = uploadedFeaturedMedia,
          uc_featuredMediaId = map_option file_id uploadedFeaturedMedia\<rparr>)"

text \<open>
  Lines 1116 to 1129: the checks, after the query. For an author the owner is read from
  the article before the article is tested for \<^verbatim>\<open>null\<close>.
\<close>

definition updateChecks :: "User option \<Rightarrow> Article option \<Rightarrow> exn + Article" where
  "updateChecks user existingArticle =
     (case user of
        None \<Rightarrow> Inl (Exn UnauthorizedException ''Authentication required'')
      | Some u \<Rightarrow>
          (case existingArticle of
             None \<Rightarrow>
               (if user_role u = AUTHOR
                then Inl (Exn TypeError ''Cannot read properties of null (reading 'authorId')'')
                else Inl (Exn NotFoundException ''Article not found''))
           | Some article \<Rightarrow>
               (if user_role u = AUTHOR \<and> article_authorId article \<noteq> user_id u
                then Inl (Exn ForbiddenException ''Only the author owner can update this article'')
                else Inr article)))"

text \<open>Lines 1113 to 1245: the body of the \<^verbatim>\<open>try\<close>.\<close>

definition updateTry ::
  "env \<Rightarrow> string \<Rightarrow> UpdateArticleDto \<Rightarrow> UpdateFiles \<Rightarrow> User option \<Rightarrow> DisplayArticleDto io" where
  "updateTry env i dto files user =
     await (getArticleByIdQuery_execute env i) (\<lambda>fetched.
     await (lift (updateChecks user fetched)) (\<lambda>existingArticle.
       let removedImageIds = parseArrayField env (ud_removedImages dto);
           removedVideoIds = parseArrayField env (ud_removedVideos dto);
           removedTagIds = parseArrayField env (ud_removedTags dto);
           tagIds = parseArrayField env (ud_tags dto)
       in
       await (deleteRemoved env removedImageIds removedVideoIds) (\<lambda>u.
       await (updateFeatured env existingArticle (uf_featuredMedia files)) (\<lambda>uploadedFeaturedMedia.
       await (updateUploads env (uf_images files)) (\<lambda>uploadedImages.
       await (updateUploads env (uf_videos files)) (\<lambda>uploadedVideos.
       await (updateArticleUsecase_execute env
                (updateCommand i dto existingArticle removedImageIds removedVideoIds removedTagIds
                   tagIds uploadedFeaturedMedia uploadedImages uploadedVideos)) (\<lambda>u.
       await (getArticleByIdQuery_execute env i) (\<lambda>refreshedArticle.
         displayOf refreshedArticle))))))))"

text \<open>Lines 1112 to 1256: the handler, with its \<^verbatim>\<open>catch\<close>.\<close>

definition update ::
  "env \<Rightarrow> string \<Rightarrow> UpdateArticleDto \<Rightarrow> UpdateFiles \<Rightarrow> User option \<Rightarrow> DisplayArticleDto io" where
  "update env i dto files user =
     try_catch (updateTry env i dto files user) (\<lambda>error.
       await (console_error [LStr ''Update article error:'', LExn error]) (\<lambda>u.
         case error of
           Exn c m \<Rightarrow> throw (Exn BadRequestException (''Failed to update article: '' @ m))
         | NonError \<Rightarrow> throw (Exn BadRequestException ''Failed to update article: Unknown error'')))"

subsection \<open>delete (lines 1275 to 1353)\<close>

text \<open>A deletion of a file inside its own \<^verbatim>\<open>try\<close>: a failure is logged and goes no further.\<close>

definition deleteQuietly :: "env \<Rightarrow> string \<Rightarrow> string \<Rightarrow> unit io" where
  "deleteQuietly env what fileId =
     try_catch (deleteFile env (JStr fileId)) (\<lambda>error.
       console_error [LStr (''Failed to delete '' @ what @ '': '' @ message_or_unknown error)])"

text \<open>The \<^verbatim>\<open>for\<close> loops of lines 1313 to 1323 and 1328 to 1338.\<close>

fun deleteEach :: "env \<Rightarrow> string \<Rightarrow> IFile list \<Rightarrow> unit io" where
  "deleteEach env what [] = return_io ()"
| "deleteEach env what (file # rest) =
     await (deleteQuietly env what (file_id file)) (\<lambda>u. deleteEach env what rest)"

text \<open>Lines 1295 to 1340: the files of the article, for a draft only.\<close>

definition deleteFiles :: "env \<Rightarrow> Article \<Rightarrow> unit io" where
  "deleteFiles env article =
     (if article_status article = DRAFT then
        await (case article_featuredMedia article of
                 None \<Rightarrow> return_io ()
               | Some featured \<Rightarrow> deleteQuietly env ''featured media'' (file_id featured)) (\<lambda>u.
        await (case article_images article of
                 None \<Rightarrow> return_io ()
               | Some imgs \<Rightarrow> deleteEach env ''image'' imgs) (\<lambda>u.
          case article_videos article of
            None \<Rightarrow> return_io ()
          | Some vids \<Rightarrow> deleteEach env ''video'' vids))
      else return_io ())"

definition deleteTry :: "env \<Rightarrow> string \<Rightarrow> User option \<Rightarrow> unit io" where
  "deleteTry env i user =
     (case user of
        None \<Rightarrow> throw (Exn UnauthorizedException ''Authentication required'')
      | Some u \<Rightarrow>
          if user_role u \<notin> {ADMIN, EDITOR}
          then throw (Exn ForbiddenException ''You are not authorized to perform this action.'')
          else
            await (getArticleByIdQuery_execute env i) (\<lambda>fetched.
              case fetched of
                None \<Rightarrow> throw (Exn NotFoundException ''Article not found'')
              | Some article \<Rightarrow>
                  await (deleteFiles env article) (\<lambda>u.
                    deleteArticleUsecase_execute env i)))"

definition delete :: "env \<Rightarrow> string \<Rightarrow> User option \<Rightarrow> unit io" where
  "delete env i user =
     try_catch (deleteTry env i user) (\<lambda>error.
       if instanceof error NotFoundException then throw error
       else throw (Exn (HttpException 500) ''Failed to delete article and associated files''))"

subsection \<open>findById (lines 866 to 951)\<close>

definition relatedArticleDto :: "RelatedArticle \<Rightarrow> RelatedArticleDto" where
  "relatedArticleDto related =
     \<lparr>rd_id = related_id related,
      rd_title = related_title related,
      rd_titleAr = related_titleAr related,
      rd_summary = related_summary related,
      rd_summaryAr = related_summaryAr related,
      rd_categoryId = related_categoryId related,
      rd_category = related_category related,
      rd_createdAt = related_createdAt related,
      rd_updatedAt = related_updatedAt related,
      rd_publishedAt = related_publishedAt related,
      rd_views = related_views related,
      rd_slug = related_slug related,
      rd_slugAr = related_slugAr related,
      rd_featuredMedia = map_option mediaDto (related_featuredMedia related),
      rd_tags = map_option (map tagDto) (related_tags related)\<rparr>"

definition displayWithRelated :: "Article \<Rightarrow> DisplayArticleWithRelatedDto" where
  "displayWithRelated articleWithRelated =
     \<lparr>dr_article = mapToDisplayDto articleWithRelated,
      dr_relatedArticles =
        (if article_status articleWithRelated = PUBLISHED
         then map relatedArticleDto (article_relatedArticles articleWithRelated)
         else [])\<rparr>"

definition findByIdTry :: "env \<Rightarrow> string \<Rightarrow> User option \<Rightarrow> DisplayArticleWithRelatedDto io" where
  "findByIdTry env i user =
     (case user of
        None \<Rightarrow> throw (Exn UnauthorizedException ''Authentication required'')
      | Some u \<Rightarrow>
          await (getArticleByIdQuery_execute env i) (\<lambda>fetched.
            case fetched of
              None \<Rightarrow> throw (Exn NotFoundException ''Article not found'')
            | Some articleWithRelated \<Rightarrow>
                if user_role u = AUTHOR \<and> article_authorId articleWithRelated \<noteq> user_id u
                then throw (Exn ForbiddenException
                              ''You are not authorized to access this article.'')
                else return_io (displayWithRelated articleWithRelated)))"

definition findById :: "env \<Rightarrow> string \<Rightarrow> User option \<Rightarrow> DisplayArticleWithRelatedDto io" where
  "findById env i user =
     try_catch (findByIdTry env i user) (\<lambda>error.
       if instanceof error UnauthorizedException \<or> instanceof error NotFoundException
          \<or> instanceof error ForbiddenException
       then throw error
       else throw (Exn InternalServerErrorException
                     ''An unexpected error occurred while fetching the article''))"

section \<open>Reading a trace\<close>

text \<open>The last call of a collaborator in a trace, with its outcome.\<close>

fun last_call :: "trace \<Rightarrow> (call \<times> (exn + retval)) option" where
  "last_call [] = None"
| "last_call (ev # evs) =
     (case last_call evs of
        Some c \<Rightarrow> Some c
      | None \<Rightarrow> (case ev of Called c r \<Rightarrow> Some (c, r) | Logged parts \<Rightarrow> None))"

text \<open>The calls of a trace, without their outcomes and without the console lines.\<close>

fun calls :: "trace \<Rightarrow> call list" where
  "calls [] = []"
| "calls (Called c r # evs) = c # calls evs"
| "calls (Logged parts # evs) = calls evs"

text \<open>The files that the uploads of a trace returned, in the order of the calls.\<close>

fun uploaded :: "trace \<Rightarrow> IFile list" where
  "uploaded [] = []"
| "uploaded (Called (UploadFile b n m) (Inr (RFile f)) # evs) = f # uploaded evs"
| "uploaded (ev # evs) = uploaded evs"

text \<open>
  Modelled from the spec: the article persistence behind the use cases (section 6,
  \<^verbatim>\<open>create(command) -> Article\<close>, \<^verbatim>\<open>delete(id) -> void\<close>,
  \<^verbatim>\<open>getById(id) -> Article|NotFound\<close>). An article is retrievable from its creation
  until a deletion of its identifier returns; a rejected call changes nothing.
\<close>

fun persist_step :: "string list \<Rightarrow> event \<Rightarrow> string list" where
  "persist_step ids (Called (CreateArticle c u) (Inr (RArticle a))) = article_id a # ids"
| "persist_step ids (Called (DeleteArticle i) (Inr r)) = removeAll i ids"
| "persist_step ids ev = ids"

definition retrievable :: "trace \<Rightarrow> string set" where
  "retrievable tr = set (foldl persist_step [] tr)"

text \<open>A trace holds a rejected call.\<close>

fun rejected :: "trace \<Rightarrow> bool" where
  "rejected [] = False"
| "rejected (Called c (Inl e) # evs) = True"
| "rejected (ev # evs) = rejected evs"

text \<open>The files of an article: the featured media, the images, the videos.\<close>

definition articleFiles :: "Article \<Rightarrow> IFile list" where
  "articleFiles article =
     (case article_featuredMedia article of None \<Rightarrow> [] | Some f \<Rightarrow> [f])
     @ (case article_images article of None \<Rightarrow> [] | Some fs \<Rightarrow> fs)
     @ (case article_videos article of None \<Rightarrow> [] | Some fs \<Rightarrow> fs)"

text \<open>
  Every rejected deletion of a file is followed by its console line, as \<open>delete\<close>
  writes it.
\<close>

definition deletionLine :: "exn \<Rightarrow> log_part list \<Rightarrow> bool" where
  "deletionLine e parts =
     (parts \<in> (\<lambda>what. [LStr (''Failed to delete '' @ what @ '': '' @ message_or_unknown e)])
               ` {''featured media'', ''image'', ''video''})"

fun failures_logged :: "trace \<Rightarrow> bool" where
  "failures_logged [] = True"
| "failures_logged (Called (DeleteFile v) (Inl e) # rest) =
     (case rest of
        Logged parts # rest' \<Rightarrow> deletionLine e parts \<and> failures_logged rest'
      | _ \<Rightarrow> False)"
| "failures_logged (ev # rest) = failures_logged rest"

text \<open>The commands that a trace handed to the update use case.\<close>

fun update_cmds :: "trace \<Rightarrow> UpdateArticleCommand list" where
  "update_cmds [] = []"
| "update_cmds (Called (UpdateArticle c) r # evs) = c # update_cmds evs"
| "update_cmds (ev # evs) = update_cmds evs"

text \<open>A file with bytes, and a field of files without those that have none.\<close>

definition hasBuffer :: "MulterFile \<Rightarrow> bool" where
  "hasBuffer file = (mf_buffer file \<noteq> None)"

fun keepBuffered :: "FileField \<Rightarrow> FileField" where
  "keepBuffered (FilesField fs) = FilesField (filter hasBuffer fs)"
| "keepBuffered field = field"

text \<open>The events that a best-effort deletion of files adds: the calls and their console lines.\<close>

fun isDeletion :: "event \<Rightarrow> bool" where
  "isDeletion (Called (DeleteFile v) r) = True"
| "isDeletion (Logged parts) = True"
| "isDeletion ev = False"

text \<open>
  The events of a run of \<open>create\<close>: an upload has a buffer, and no file is deleted.
\<close>

fun createEvent :: "event \<Rightarrow> bool" where
  "createEvent (Called (UploadFile b n m) r) = (b \<noteq> None)"
| "createEvent (Called (DeleteFile v) r) = False"
| "createEvent ev = True"

section \<open>Sample requests and environments\<close>

text \<open>The concrete inputs of the worked examples below.\<close>

definition sample_author :: User where
  "sample_author = \<lparr>user_id = ''u1'', user_email = ''u1@example.org'', user_role = AUTHOR\<rparr>"

definition other_author :: User where
  "other_author = \<lparr>user_id = ''u2'', user_email = ''u2@example.org'', user_role = AUTHOR\<rparr>"

definition sample_editor :: User where
  "sample_editor = \<lparr>user_id = ''e1'', user_email = ''e1@example.org'', user_role = EDITOR\<rparr>"

text \<open>The article that the sample use case makes of a command.\<close>

definition articleOf :: "string \<Rightarrow> CreateArticleCommand \<Rightarrow> Article" where
  "articleOf i c =
     \<lparr>article_id = i, article_title = cc_title c, article_titleAr = cc_titleAr c,
      article_content = (case cc_content c of None \<Rightarrow> [] | Some x \<Rightarrow> x),
      article_contentAr = (case cc_contentAr c of None \<Rightarrow> [] | Some x \<Rightarrow> x),
      article_summary = (case cc_summary c of None \<Rightarrow> [] | Some x \<Rightarrow> x),
      article_summaryAr = (case cc_summaryAr c of None \<Rightarrow> [] | Some x \<Rightarrow> x),
      article_authorId = cc_authorId c, article_authorEmail = cc_authorEmail c,
      article_category = None, article_tags = Some (cc_tags c),
      article_createdAt = 0, article_updatedAt = 0, article_publishedAt = None,
      article_status = cc_status c, article_views = 0, article_slug = cc_title c,
      article_slugAr = None, article_images = Some (cc_images c),
      article_videos = Some (cc_videos c), article_featuredMedia = cc_featuredMedia c,
      article_relatedArticles = []\<rparr>"

definition sample_dto :: CreateArticleDto where
  "sample_dto =
     \<lparr>cd_title = ''T'', cd_titleAr = ''T'', cd_content = None, cd_contentAr = None,
      cd_summary = None, cd_summaryAr = None, cd_categoryId = None, cd_status = None,
      cd_tags = None, cd_tagIds = NoTagIds\<rparr>"

text \<open>A file of a request, with or without bytes, and the file record the sample uploader returns.\<close>

definition png :: "string \<Rightarrow> string option \<Rightarrow> MulterFile" where
  "png n b = \<lparr>mf_buffer = b, mf_originalname = n, mf_mimetype = ''image/png'', mf_size = 3\<rparr>"

definition stored :: "string \<Rightarrow> IFile" where
  "stored n =
     \<lparr>file_id = n, file_url = ''http://files/'' @ n, file_filename = n,
      file_mimetype = ''image/png'', file_size = 3, file_path = None,
      file_createdAt = 0, file_updatedAt = 0\<rparr>"

text \<open>
  A draft of author \<open>u1\<close> with images \<open>A\<close>, \<open>B\<close>, \<open>C\<close>, a video and a featured
  media, and the same article published.
\<close>

definition sample_article :: Article where
  "sample_article =
     \<lparr>article_id = ''a1'', article_title = ''T'', article_titleAr = ''T'',
      article_content = [], article_contentAr = [], article_summary = [],
      article_summaryAr = [], article_authorId = ''u1'',
      article_authorEmail = ''u1@example.org'', article_category = None,
      article_tags = None, article_createdAt = 0, article_updatedAt = 0,
      article_publishedAt = None, article_status = DRAFT, article_views = 0,
      article_slug = ''t'', article_slugAr = None,
      article_images = Some [stored ''A'', stored ''B'', stored ''C''],
      article_videos = Some [stored ''V''],
      article_featuredMedia = Some (stored ''F''),
      article_relatedArticles = []\<rparr>"

definition published_article :: Article where
  "published_article = sample_article\<lparr>article_id := ''a2'', article_status := PUBLISHED\<rparr>"

text \<open>
  An environment: the parser of this file; articles \<open>a1\<close> and \<open>a2\<close> are found; the
  upload of \<open>bad.png\<close> and the deletion of file \<open>B\<close> are rejected; every other call
  returns.
\<close>

definition sample_env :: env where
  "sample_env =
     \<lparr>JSON_parse = json_parse,
      randomUUID = (\<lambda>tr. ''uuid''),
      now = length,
      createArticleUsecase = (\<lambda>tr c u. Inr (articleOf ''a1'' c)),
      updateArticleUsecase = (\<lambda>tr c. Inr ()),
      deleteArticleUsecase = (\<lambda>tr i. Inr ()),
      getArticleByIdQuery =
        (\<lambda>tr i. Inr (if i = ''a1'' then Some sample_article
                       else if i = ''a2'' then Some published_article else None)),
      tagRepository_findById = (\<lambda>tr i. Inr None),
      tagRepository_create = (\<lambda>tr t. Inr ()),
      fileUploader_uploadFile =
        (\<lambda>tr b n m. if n = ''bad.png'' then Inl (Exn OtherError ''disk full'')
                      else Inr (stored n)),
      fileService_deleteFile =
        (\<lambda>tr v. if v = JStr ''B'' then Inl (Exn OtherError ''storage offline'') else Inr ())\<rparr>"

definition files1 :: CreateFiles where
  "files1 =
     \<lparr>cf_featuredMedia = NoField,
      cf_images = FilesField [png ''ok.png'' (Some ''abc''), png ''bad.png'' (Some ''abc''),
                              png ''late.png'' (Some ''abc'')],
      cf_videos = NoField\<rparr>"

text \<open>JSON texts and lists of identifiers as a request may send them.\<close>

definition tags_array_text :: string where
  \<open>tags_array_text = ''[{"name":"x","nameAr":"y"}]''\<close>

definition tags_object_text :: string where
  \<open>tags_object_text = ''{"name":"x"}''\<close>

definition tags_list_text :: string where
  \<open>tags_list_text = ''{"name":"x"},{"name":"y"}''\<close>

definition ids_array_text :: string where
  \<open>ids_array_text = ''["A","B"]''\<close>

definition ids_quoted_text :: string where
  \<open>ids_quoted_text = ''"a","b"''\<close>

text \<open>An update request that changes nothing, and one without files.\<close>

definition empty_update :: UpdateArticleDto where
  "empty_update =
     \<lparr>ud_title = None, ud_titleAr = None, ud_content = None, ud_contentAr = None,
      ud_summary = None, ud_summaryAr = None, ud_categoryId = None,
      ud_removedImages = JUndefined, ud_removedVideos = JUndefined,
      ud_removedTags = JUndefined, ud_tags = JUndefined\<rparr>"

definition no_files :: UpdateFiles where
  "no_files = \<lparr>uf_images = None, uf_videos = None, uf_featuredMedia = None\<rparr>"

text \<open>
  The update of the example in the spec: images \<open>A\<close> and \<open>B\<close> are removed and one new
  image \<open>D\<close> is uploaded.
\<close>

definition remove_AB :: UpdateArticleDto where
  "remove_AB = empty_update\<lparr>ud_removedImages := JArr [JStr ''A'', JStr ''B'']\<rparr>"

definition upload_D :: UpdateFiles where
  "upload_D = no_files\<lparr>uf_images := Some [png ''D'' (Some ''abc'')]\<rparr>"

text \<open>
  Files without bytes: one between two images of a create request, a create request
  whose featured file and only image have none, and an image and a featured file of an
  update.
\<close>

definition files_mixed :: CreateFiles where
  "files_mixed =
     \<lparr>cf_featuredMedia = NoField,
      cf_images = FilesField [png ''ok.png'' (Some ''abc''), png ''E'' None,
                              png ''late.png'' (Some ''abc'')],
      cf_videos = NoField\<rparr>"

definition featured_empty :: CreateFiles where
  "featured_empty =
     \<lparr>cf_featuredMedia = FilesField [png ''E'' None],
      cf_images = FilesField [png ''E'' None], cf_videos = NoField\<rparr>"

definition upload_empty :: UpdateFiles where
  "upload_empty = no_files\<lparr>uf_images := Some [png ''E'' None]\<rparr>"

definition replace_empty :: UpdateFiles where
  "replace_empty = no_files\<lparr>uf_featuredMedia := Some [png ''E'' None]\<rparr>"

text \<open>
  An article whose first image has an identifier of digits only, an environment that
  finds it as \<open>a3\<close>, and two requests to remove that image: the identifier sent as a
  string, and sent in an array.
\<close>

definition numbered_article :: Article where
  "numbered_article =
     sample_article\<lparr>article_id := ''a3'',
                      article_images := Some [stored ''123'', stored ''C'']\<rparr>"

definition numbered_env :: env where
  "numbered_env =
     sample_env\<lparr>getArticleByIdQuery :=
                  (\<lambda>tr i. Inr (if i = ''a3'' then Some numbered_article else None))\<rparr>"

definition remove_123_text :: UpdateArticleDto where
  "remove_123_text = empty_update\<lparr>ud_removedImages := JStr ''123''\<rparr>"

definition remove_123_array :: UpdateArticleDto where
  "remove_123_array = empty_update\<lparr>ud_removedImages := JArr [JStr ''123'']\<rparr>"

text \<open>The environment of \<open>sample_env\<close>, but every deletion of an article is rejected.\<close>

definition failing_delete_env :: env where
  "failing_delete_env =
     sample_env\<lparr>deleteArticleUsecase := (\<lambda>tr i. Inl (Exn OtherError ''database unavailable''))\<rparr>"

section \<open>What a computation adds to the trace\<close>

text \<open>
  \<open>emits Q m\<close>: whatever its outcome, \<open>m\<close> only extends the trace, and every event
  it adds satisfies \<open>Q\<close>.
\<close>

definition emits :: "(event \<Rightarrow> bool) \<Rightarrow> 'a io \<Rightarrow> bool" where
  "emits Q m = (\<forall>tr. \<exists>evs. snd (m tr) = tr @ evs \<and> (\<forall>ev \<in> set evs. Q ev))"

lemma emitsD: "emits Q m \<Longrightarrow> m tr = (r, tr') \<Longrightarrow> \<exists>evs. tr' = tr @ evs \<and> (\<forall>ev \<in> set evs. Q ev)"
  unfolding emits_def by (metis snd_conv)

lemma emits_mono: "emits P m \<Longrightarrow> (\<And>ev. P ev \<Longrightarrow> Q ev) \<Longrightarrow> emits Q m"
  unfolding emits_def by blast

lemma emits_return [simp]: "emits Q (return_io x)"
  by (simp add: emits_def return_io_def)

lemma emits_throw [simp]: "emits Q (throw e)"
  by (simp add: emits_def throw_def)

lemma emits_lift [simp]: "emits Q (lift r)"
  by (simp add: emits_def lift_def)

lemma emits_perform: "(\<And>r. Q (Called c r)) \<Longrightarrow> emits Q (perform c f w)"
  by (simp add: emits_def perform_def)

lemma emits_console_error: "Q (Logged parts) \<Longrightarrow> emits Q (console_error parts)"
  by (simp add: emits_def console_error_def)

lemma emits_new_Date [simp]: "emits Q (new_Date env)"
  by (simp add: emits_def new_Date_def)

lemma emits_crypto_randomUUID [simp]: "emits Q (crypto_randomUUID env)"
  by (simp add: emits_def crypto_randomUUID_def)

lemma emits_await:
  assumes "emits Q m" and "\<And>x. emits Q (k x)"
  shows "emits Q (await m k)"
  unfolding emits_def
proof
  fix tr
  obtain r tr1 where m: "m tr = (r, tr1)" by (cases "m tr")
  from emitsD [OF assms(1) m] obtain evs where tr1: "tr1 = tr @ evs" "\<forall>ev \<in> set evs. Q ev" by blast
  show "\<exists>evs. snd (await m k tr) = tr @ evs \<and> (\<forall>ev \<in> set evs. Q ev)"
  proof (cases r)
    case (Inl e)
    with m tr1 show ?thesis by (simp add: await_def)
  next
    case (Inr x)
    obtain r2 tr2 where k: "k x tr1 = (r2, tr2)" by (cases "k x tr1")
    from emitsD [OF assms(2) k] obtain evs2 where "tr2 = tr1 @ evs2" "\<forall>ev \<in> set evs2. Q ev" by blast
    with m tr1 Inr k show ?thesis by (intro exI [of _ "evs @ evs2"]) (auto simp: await_def)
  qed
qed

lemma emits_try_catch:
  assumes "emits Q m" and "\<And>e. emits Q (h e)"
  shows "emits Q (try_catch m h)"
  unfolding emits_def
proof
  fix tr
  obtain r tr1 where m: "m tr = (r, tr1)" by (cases "m tr")
  from emitsD [OF assms(1) m] obtain evs where tr1: "tr1 = tr @ evs" "\<forall>ev \<in> set evs. Q ev" by blast
  show "\<exists>evs. snd (try_catch m h tr) = tr @ evs \<and> (\<forall>ev \<in> set evs. Q ev)"
  proof (cases r)
    case (Inr x)
    with m tr1 show ?thesis by (simp add: try_catch_def)
  next
    case (Inl e)
    obtain r2 tr2 where h: "h e tr1 = (r2, tr2)" by (cases "h e tr1")
    from emitsD [OF assms(2) h] obtain evs2 where "tr2 = tr1 @ evs2" "\<forall>ev \<in> set evs2. Q ev" by blast
    with m tr1 Inl h show ?thesis by (intro exI [of _ "evs @ evs2"]) (auto simp: try_catch_def)
  qed
qed

lemma settle_emits:
  "\<forall>m \<in> set ms. emits Q m \<Longrightarrow> \<exists>evs. snd (settle ms tr) = tr @ evs \<and> (\<forall>ev \<in> set evs. Q ev)"
proof (induction ms arbitrary: tr)
  case Nil
  then show ?case by simp
next
  case (Cons m ms)
  obtain r tr1 where m: "m tr = (r, tr1)" by (cases "m tr")
  from Cons.prems have "emits Q m" by simp
  from emitsD [OF this m] obtain evs where tr1: "tr1 = tr @ evs" "\<forall>ev \<in> set evs. Q ev" by blast
  from Cons.IH [of tr1] Cons.prems obtain evs2 where
    "snd (settle ms tr1) = tr1 @ evs2" "\<forall>ev \<in> set evs2. Q ev"
    by auto
  with m tr1 show ?case by (intro exI [of _ "evs @ evs2"]) (auto split: prod.splits)
qed

lemma emits_promise_all:
  assumes "\<And>m. m \<in> set ms \<Longrightarrow> emits Q m"
  shows "emits Q (promise_all ms)"
proof -
  have "\<exists>evs. snd (settle ms tr) = tr @ evs \<and> (\<forall>ev \<in> set evs. Q ev)" for tr
    using assms by (intro settle_emits) simp
  then show ?thesis by (simp add: emits_def promise_all_def split_beta)
qed

lemma emits_if: "emits Q a \<Longrightarrow> emits Q b \<Longrightarrow> emits Q (if c then a else b)"
  by simp

lemmas emits_intros = emits_await emits_try_catch emits_promise_all emits_if emits_perform
  emits_console_error

lemma emits_displayOf [simp]: "emits Q (displayOf x)"
  by (simp add: displayOf_def split: option.splits)

lemma emits_fetchTag: "emits createEvent (fetchTag env i)"
  unfolding fetchTag_def tagRepository_findById_call_def
  by (auto intro!: emits_intros split: option.splits)

lemma emits_createTag: "emits createEvent (createTag env v)"
  unfolding createTag_def tagRepository_create_call_def
  by (auto intro!: emits_intros simp: Let_def split: option.splits prod.splits)

lemma emits_uploadEach: "emits createEvent (uploadEach env fs)"
  by (induction fs) (auto intro!: emits_intros simp: uploadFile_def split: option.splits)

lemma emits_uploadGroup: "emits createEvent (uploadGroup env f)"
  by (simp add: uploadGroup_def emits_uploadEach split: FileField.splits)

lemma emits_createFeatured: "emits createEvent (createFeatured env a f)"
  unfolding createFeatured_def uploadFile_def updateArticleUsecase_execute_def
  by (auto intro!: emits_intros split: FileField.splits list.splits option.splits)

lemma emits_createBody: "emits createEvent (createBody env files pts ids a)"
  unfolding createBody_def updateArticleUsecase_execute_def getArticleByIdQuery_execute_def
  by (intro emits_intros emits_uploadGroup emits_createFeatured)
     (auto simp: emits_fetchTag emits_createTag)

lemma emits_create: "emits createEvent (create env dto files user)"
  unfolding create_def createTry_def createCompensate_def createArticleUsecase_execute_def
    deleteArticleUsecase_execute_def
  by (auto intro!: emits_intros emits_createBody split: option.splits)

section \<open>A computation that returns had no rejected call\<close>

text \<open>
  \<open>sound m\<close>: when \<open>m\<close> returns a result, none of the calls it issued was rejected.
  It holds of every computation built without \<open>try_catch\<close>.
\<close>

definition sound :: "'a io \<Rightarrow> bool" where
  "sound m = (\<forall>tr x tr'. m tr = (Inr x, tr') \<longrightarrow> (\<exists>evs. tr' = tr @ evs \<and> \<not> rejected evs))"

lemma last_call_append:
  "last_call (tr @ evs) = (case last_call evs of Some c \<Rightarrow> Some c | None \<Rightarrow> last_call tr)"
  by (induction tr) (auto split: option.splits)

lemma rejected_append [simp]: "rejected (evs1 @ evs2) = (rejected evs1 \<or> rejected evs2)"
  by (induction evs1 rule: rejected.induct) auto

lemma soundD: "sound m \<Longrightarrow> m tr = (Inr x, tr') \<Longrightarrow> \<exists>evs. tr' = tr @ evs \<and> \<not> rejected evs"
  unfolding sound_def by blast

lemma sound_return [simp]: "sound (return_io x)"
  by (simp add: sound_def return_io_def)

lemma sound_throw [simp]: "sound (throw e)"
  by (simp add: sound_def throw_def)

lemma sound_lift [simp]: "sound (lift r)"
  by (simp add: sound_def lift_def)

lemma sound_perform [simp]: "sound (perform c f w)"
  by (auto simp: sound_def perform_def)

lemma sound_new_Date [simp]: "sound (new_Date env)"
  by (simp add: sound_def new_Date_def)

lemma sound_crypto_randomUUID [simp]: "sound (crypto_randomUUID env)"
  by (simp add: sound_def crypto_randomUUID_def)

lemma sound_await [intro!]:
  assumes "sound m" and "\<And>x. sound (k x)"
  shows "sound (await m k)"
  unfolding sound_def
proof (intro allI impI)
  fix tr y tr'
  assume run: "await m k tr = (Inr y, tr')"
  obtain r tr1 where m: "m tr = (r, tr1)" by (cases "m tr")
  with run obtain x where r: "r = Inr x" and k: "k x tr1 = (Inr y, tr')"
    by (cases r) (auto simp: await_def)
  from soundD [OF assms(1)] m r obtain evs1 where "tr1 = tr @ evs1" "\<not> rejected evs1" by blast
  moreover from soundD [OF assms(2) k] obtain evs2 where "tr' = tr1 @ evs2" "\<not> rejected evs2" by blast
  ultimately show "\<exists>evs. tr' = tr @ evs \<and> \<not> rejected evs"
    by (intro exI [of _ "evs1 @ evs2"]) simp
qed

lemma sound_if [intro!]: "sound a \<Longrightarrow> sound b \<Longrightarrow> sound (if c then a else b)"
  by simp

lemma gather_Inr: "gather rs = Inr xs \<Longrightarrow> Inl e \<notin> set rs"
  by (induction rs arbitrary: xs rule: gather.induct) (auto split: sum.splits)

lemma settle_sound:
  assumes "\<forall>m \<in> set ms. sound m" and "settle ms tr = (rs, tr')" and "\<forall>e. Inl e \<notin> set rs"
  shows "\<exists>evs. tr' = tr @ evs \<and> \<not> rejected evs"
  using assms
proof (induction ms arbitrary: tr rs tr')
  case Nil
  then show ?case by simp
next
  case (Cons m ms)
  obtain r tr1 where m: "m tr = (r, tr1)" by (cases "m tr")
  obtain rs1 tr2 where s: "settle ms tr1 = (rs1, tr2)" by (cases "settle ms tr1")
  from Cons.prems(2) m s have rs: "rs = r # rs1" and tr': "tr' = tr2" by auto
  with Cons.prems(3) obtain x where r: "r = Inr x" by (cases r) auto
  from Cons.prems(1) have "sound m" by simp
  from soundD [OF this] m r obtain evs1 where e1: "tr1 = tr @ evs1" "\<not> rejected evs1" by blast
  from Cons.IH [OF _ s] Cons.prems rs obtain evs2 where e2: "tr2 = tr1 @ evs2" "\<not> rejected evs2"
    by auto
  from e1 e2 tr' show ?case by (intro exI [of _ "evs1 @ evs2"]) simp
qed

lemma sound_promise_all [intro!]:
  assumes "\<And>m. m \<in> set ms \<Longrightarrow> sound m"
  shows "sound (promise_all ms)"
  unfolding sound_def
proof (intro allI impI)
  fix tr xs tr'
  assume run: "promise_all ms tr = (Inr xs, tr')"
  obtain rs tr1 where s: "settle ms tr = (rs, tr1)" by (cases "settle ms tr")
  with run have g: "gather rs = Inr xs" and tr1: "tr1 = tr'" by (auto simp: promise_all_def)
  from gather_Inr [OF g] have "\<forall>e. Inl e \<notin> set rs" by blast
  with settle_sound [OF _ s] assms tr1 show "\<exists>evs. tr' = tr @ evs \<and> \<not> rejected evs" by auto
qed

lemma sound_calls [simp]:
  "sound (createArticleUsecase_execute env c u)"
  "sound (updateArticleUsecase_execute env uc)"
  "sound (deleteArticleUsecase_execute env i)"
  "sound (getArticleByIdQuery_execute env i)"
  "sound (tagRepository_findById_call env i)"
  "sound (tagRepository_create_call env t)"
  "sound (uploadFile env b n mt)"
  "sound (deleteFile env v)"
  by (simp_all add: createArticleUsecase_execute_def updateArticleUsecase_execute_def
        deleteArticleUsecase_execute_def getArticleByIdQuery_execute_def
        tagRepository_findById_call_def tagRepository_create_call_def uploadFile_def
        deleteFile_def)

lemma sound_displayOf [simp]: "sound (displayOf x)"
  by (simp add: displayOf_def split: option.splits)

lemma sound_fetchTag [simp]: "sound (fetchTag env i)"
  unfolding fetchTag_def by (auto split: option.splits)

lemma sound_createTag [simp]: "sound (createTag env v)"
  unfolding createTag_def by (auto simp: Let_def split: option.splits prod.splits)

lemma sound_uploadEach [simp]: "sound (uploadEach env fs)"
  by (induction fs) (auto split: option.splits)

lemma sound_uploadGroup [simp]: "sound (uploadGroup env f)"
  by (simp add: uploadGroup_def split: FileField.splits)

lemma sound_createFeatured [simp]: "sound (createFeatured env a f)"
  unfolding createFeatured_def by (auto split: FileField.splits list.splits option.splits)

lemma sound_createBody [simp]: "sound (createBody env files pts ids a)"
  unfolding createBody_def by (intro sound_await sound_if) auto

section \<open>Claims about create\<close>

lemma createTry_cases:
  assumes "createTry env dto files user tr = (r, tr1)"
  shows "(tr1 = tr \<and> (\<exists>e. r = Inl e))
       \<or> (\<exists>e u. tr1 = tr @ [Called (CreateArticle (createCommand dto u) u) (Inl e)] \<and> r = Inl e)
       \<or> (\<exists>u a pts. try_catch (createBody env files pts (parseTagIds (cd_tagIds dto)) a) (createCompensate env a)
             (tr @ [Called (CreateArticle (createCommand dto u) u) (Inr (RArticle a))]) = (r, tr1))"
  using assms
  by (auto simp: createTry_def throw_def await_def lift_def createArticleUsecase_execute_def perform_def
           split: option.splits if_splits sum.splits prod.splits)

lemma createCompensate_result:
  assumes "createCompensate env a e tr = (r, tr1)"
  shows "(\<exists>e'. r = Inl e' \<and> tr1 = tr @ [Called (DeleteArticle (article_id a)) (Inl e')])
       \<or> (r = Inl (Exn BadRequestException (''Failed to upload files: '' @ message_or_unknown e))
          \<and> tr1 = tr @ [Called (DeleteArticle (article_id a)) (Inr RUnit), Logged [LStr ''File upload error:'', LExn e]])"
  using assms
  by (auto simp: createCompensate_def await_def throw_def deleteArticleUsecase_execute_def perform_def console_error_def
           split: sum.splits prod.splits)

text \<open>
  C1, as amended. Take a run of \<open>create\<close> in which the skeleton article \<open>a\<close> was
  persisted (the use case returned it) and in which something went wrong afterwards: the
  handler threw, or one of the later calls (a look-up or a creation of a tag, an upload,
  an update of the article, the final query) was rejected. Then the handler threw a
  BadRequest, and the last call it issued is the deletion of the article by its
  identifier. If that deletion returned, the article is no longer retrievable. The
  deletion is not guarded: when it is rejected itself, the BadRequest carries its message
  and the article stays (see the counterexample).
\<close>

theorem create_failure_after_skeleton:
  assumes run: "create env dto files user tr = (r, tr')"
      and skel: "tr' = tr @ Called (CreateArticle cmd u) (Inr (RArticle a)) # evs"
      and fail: "(\<exists>e. r = Inl e) \<or> rejected evs"
  shows "(\<exists>msg. r = Inl (Exn BadRequestException msg)) \<and>
         (\<exists>res. last_call tr' = Some (DeleteArticle (article_id a), res) \<and>
                (res = Inr RUnit \<longrightarrow> article_id a \<notin> retrievable tr'))"
proof -
  obtain r1 tr1 where tryrun: "createTry env dto files user tr = (r1, tr1)"
    by (cases "createTry env dto files user tr")
  from createTry_cases [OF tryrun] show ?thesis
  proof (elim disjE exE conjE)
    fix e assume "tr1 = tr" "r1 = Inl e"
    with run tryrun skel show ?thesis
      by (auto simp: create_def try_catch_def await_def console_error_def throw_def)
  next
    fix e u' assume "tr1 = tr @ [Called (CreateArticle (createCommand dto u') u') (Inl e)]" "r1 = Inl e"
    with run tryrun skel show ?thesis
      by (auto simp: create_def try_catch_def await_def console_error_def throw_def)
  next
    fix u' a' pts
    let ?tr0 = "tr @ [Called (CreateArticle (createCommand dto u') u') (Inr (RArticle a'))]"
    assume tc: "try_catch (createBody env files pts (parseTagIds (cd_tagIds dto)) a') (createCompensate env a') ?tr0 = (r1, tr1)"
    obtain rb trb where body: "createBody env files pts (parseTagIds (cd_tagIds dto)) a' ?tr0 = (rb, trb)"
      by (cases "createBody env files pts (parseTagIds (cd_tagIds dto)) a' ?tr0")
    from emitsD [OF emits_createBody body] obtain evb where trb: "trb = ?tr0 @ evb" by blast
    show ?thesis
    proof (cases rb)
      case (Inr x)
      with tc body have "r1 = Inr x" "tr1 = trb" by (auto simp: try_catch_def)
      with run tryrun have r: "r = Inr x" and tr': "tr' = trb" by (auto simp: create_def try_catch_def)
      from soundD [OF sound_createBody] body Inr obtain evs' where "trb = ?tr0 @ evs'" "\<not> rejected evs'"
        by blast
      with tr' skel have "\<not> rejected evs" by simp
      with r fail show ?thesis by simp
    next
      case (Inl eb)
      with tc body have comp: "createCompensate env a' eb trb = (r1, tr1)" by (simp add: try_catch_def)
      from createCompensate_result [OF comp] obtain e1 where r1: "r1 = Inl e1" by auto
      with run tryrun have tr': "tr' = tr1 @ [Logged [LStr ''Article creation error:'', LExn e1]]"
        and r: "r = Inl (Exn BadRequestException (''Failed to create article: '' @ message_or_unknown e1))"
        by (auto simp: create_def try_catch_def await_def console_error_def throw_def)
      from createCompensate_result [OF comp] trb tr' skel have a: "a' = a"
        by auto
      from createCompensate_result [OF comp] show ?thesis
        using r tr' a r1 by (auto simp: retrievable_def last_call_append)
    qed
  qed
qed

theorem create_failure_after_skeleton_witness:
  "fst (create sample_env sample_dto files1 (Some sample_author) []) =
     Inl (Exn BadRequestException ''Failed to create article: Failed to upload files: disk full'') \<and>
   (\<exists>res. last_call (snd (create sample_env sample_dto files1 (Some sample_author) [])) =
            Some (DeleteArticle ''a1'', res) \<and>
          (res = Inr RUnit \<longrightarrow>
             ''a1'' \<notin> retrievable (snd (create sample_env sample_dto files1 (Some sample_author) []))))"
proof -
  let ?a = "articleOf ''a1'' (createCommand sample_dto sample_author)"
  have run: "create sample_env sample_dto files1 (Some sample_author) [] =
    (Inl (Exn BadRequestException ''Failed to create article: Failed to upload files: disk full''),
     [] @ Called (CreateArticle (createCommand sample_dto sample_author) sample_author)
            (Inr (RArticle ?a)) #
       [Called (UploadFile (Some ''abc'') ''ok.png'' ''image/png'') (Inr (RFile (stored ''ok.png''))),
        Called (UploadFile (Some ''abc'') ''bad.png'' ''image/png'') (Inl (Exn OtherError ''disk full'')),
        Called (DeleteArticle ''a1'') (Inr RUnit),
        Logged [LStr ''File upload error:'', LExn (Exn OtherError ''disk full'')],
        Logged [LStr ''Article creation error:'',
                LExn (Exn BadRequestException ''Failed to upload files: disk full'')]])"
    by code_simp
  have id: "article_id ?a = ''a1''" by (simp add: articleOf_def)
  from create_failure_after_skeleton [OF run refl] show ?thesis
    unfolding run id by simp
qed

text \<open>
  The claim as stated fails where the deletion is rejected: the upload of the second
  image fails, the handler issues the deletion, the deletion is rejected, a BadRequest
  is thrown, and article \<open>a1\<close> is still retrievable.
\<close>

theorem create_compensation_counterexample:
  "fst (create failing_delete_env sample_dto files1 (Some sample_author) []) =
     Inl (Exn BadRequestException ''Failed to create article: database unavailable'') \<and>
   calls (snd (create failing_delete_env sample_dto files1 (Some sample_author) [])) =
     [CreateArticle (createCommand sample_dto sample_author) sample_author,
      UploadFile (Some ''abc'') ''ok.png'' ''image/png'',
      UploadFile (Some ''abc'') ''bad.png'' ''image/png'',
      DeleteArticle ''a1''] \<and>
   ''a1'' \<in> retrievable (snd (create failing_delete_env sample_dto files1 (Some sample_author) []))"
  by code_simp

section \<open>Claims about delete\<close>

lemma calls_append [simp]: "calls (xs @ ys) = calls xs @ calls ys"
  by (induction xs rule: calls.induct) auto

lemma failures_logged_append:
  "failures_logged xs \<Longrightarrow> failures_logged ys \<Longrightarrow> failures_logged (xs @ ys)"
  by (induction xs rule: failures_logged.induct) (auto split: list.splits event.splits)

lemma deleteQuietly_run:
  assumes "what \<in> {''featured media'', ''image'', ''video''}"
  shows "\<exists>evs. deleteQuietly env what fileId tr = (Inr (), tr @ evs) \<and>
           calls evs = [DeleteFile (JStr fileId)] \<and> failures_logged evs"
  using assms
  by (cases "fileService_deleteFile env tr (JStr fileId)")
     (auto simp: deleteQuietly_def try_catch_def deleteFile_def perform_def console_error_def
        deletionLine_def)

lemma deleteEach_run:
  assumes "what \<in> {''featured media'', ''image'', ''video''}"
  shows "\<exists>evs. deleteEach env what fs tr = (Inr (), tr @ evs) \<and>
           calls evs = map (\<lambda>f. DeleteFile (JStr (file_id f))) fs \<and> failures_logged evs"
proof (induction fs arbitrary: tr)
  case Nil
  then show ?case by (simp add: return_io_def)
next
  case (Cons f fs)
  from deleteQuietly_run [OF assms, of env "file_id f" tr] obtain evs1 where
    1: "deleteQuietly env what (file_id f) tr = (Inr (), tr @ evs1)"
       "calls evs1 = [DeleteFile (JStr (file_id f))]" "failures_logged evs1" by blast
  from Cons.IH [of "tr @ evs1"] obtain evs2 where
    2: "deleteEach env what fs (tr @ evs1) = (Inr (), (tr @ evs1) @ evs2)"
       "calls evs2 = map (\<lambda>f. DeleteFile (JStr (file_id f))) fs" "failures_logged evs2" by blast
  from 1 2 show ?case
    by (intro exI [of _ "evs1 @ evs2"]) (simp add: await_def failures_logged_append)
qed

lemma deleteFiles_run:
  "\<exists>evs. deleteFiles env a tr = (Inr (), tr @ evs) \<and>
     calls evs = (if article_status a = DRAFT
                  then map (\<lambda>f. DeleteFile (JStr (file_id f))) (articleFiles a) else []) \<and>
     failures_logged evs"
proof (cases "article_status a = DRAFT")
  case False
  then show ?thesis by (simp add: deleteFiles_def return_io_def)
next
  case True
  let ?D = "\<lambda>f. DeleteFile (JStr (file_id f))"
  have f: "\<exists>evs. (case article_featuredMedia a of None \<Rightarrow> return_io ()
             | Some featured \<Rightarrow> deleteQuietly env ''featured media'' (file_id featured)) tr
           = (Inr (), tr @ evs) \<and>
           calls evs = map ?D (case article_featuredMedia a of None \<Rightarrow> [] | Some f \<Rightarrow> [f]) \<and>
           failures_logged evs" for tr
    using deleteQuietly_run [of "''featured media''" env _ tr]
    by (cases "article_featuredMedia a") (auto simp: return_io_def)
  have i: "\<exists>evs. (case article_images a of None \<Rightarrow> return_io ()
             | Some imgs \<Rightarrow> deleteEach env ''image'' imgs) tr = (Inr (), tr @ evs) \<and>
           calls evs = map ?D (case article_images a of None \<Rightarrow> [] | Some fs \<Rightarrow> fs) \<and>
           failures_logged evs" for tr
    using deleteEach_run [of "''image''" env _ tr]
    by (cases "article_images a") (auto simp: return_io_def)
  have v: "\<exists>evs. (case article_videos a of None \<Rightarrow> return_io ()
             | Some vids \<Rightarrow> deleteEach env ''video'' vids) tr = (Inr (), tr @ evs) \<and>
           calls evs = map ?D (case article_videos a of None \<Rightarrow> [] | Some fs \<Rightarrow> fs) \<and>
           failures_logged evs" for tr
    using deleteEach_run [of "''video''" env _ tr]
    by (cases "article_videos a") (auto simp: return_io_def)
  from f [of tr] obtain e1 where 1: "(case article_featuredMedia a of None \<Rightarrow> return_io ()
             | Some featured \<Rightarrow> deleteQuietly env ''featured media'' (file_id featured)) tr
           = (Inr (), tr @ e1)"
     "calls e1 = map ?D (case article_featuredMedia a of None \<Rightarrow> [] | Some f \<Rightarrow> [f])"
     "failures_logged e1" by blast
  from i [of "tr @ e1"] obtain e2 where 2: "(case article_images a of None \<Rightarrow> return_io ()
             | Some imgs \<Rightarrow> deleteEach env ''image'' imgs) (tr @ e1) = (Inr (), (tr @ e1) @ e2)"
     "calls e2 = map ?D (case article_images a of None \<Rightarrow> [] | Some fs \<Rightarrow> fs)"
     "failures_logged e2" by blast
  from v [of "(tr @ e1) @ e2"] obtain e3 where 3: "(case article_videos a of None \<Rightarrow> return_io ()
             | Some vids \<Rightarrow> deleteEach env ''video'' vids) ((tr @ e1) @ e2)
           = (Inr (), ((tr @ e1) @ e2) @ e3)"
     "calls e3 = map ?D (case article_videos a of None \<Rightarrow> [] | Some fs \<Rightarrow> fs)"
     "failures_logged e3" by blast
  from True 1 2 3 show ?thesis
    by (intro exI [of _ "e1 @ e2 @ e3"])
       (simp add: deleteFiles_def await_def articleFiles_def failures_logged_append)
qed

text \<open>
  C7. A delete request of an editor or administrator for an article that exists issues
  these calls and no others: the query, then, if and only if the article is a draft, one
  deletion for each of its files (featured media, images, videos, in this order), then
  the deletion of the article. Every rejected file deletion is followed by its console
  line. The outcome is the outcome of the deletion of the article alone: a rejected file
  deletion changes neither the calls that follow nor the result.
\<close>

theorem delete_files_only_for_draft:
  assumes "user_role u \<in> {ADMIN, EDITOR}"
      and "getArticleByIdQuery env tr i = Inr (Some a)"
  shows "\<exists>evs res.
           delete env i (Some u) tr =
             ((case res of
                 Inr v \<Rightarrow> Inr ()
               | Inl e \<Rightarrow>
                   if instanceof e NotFoundException then Inl e
                   else Inl (Exn (HttpException 500)
                              ''Failed to delete article and associated files'')),
              tr @ evs) \<and>
           calls evs =
             GetArticleById i #
             (if article_status a = DRAFT
              then map (\<lambda>f. DeleteFile (JStr (file_id f))) (articleFiles a) else []) @
             [DeleteArticle i] \<and>
           failures_logged evs \<and>
           last_call evs = Some (DeleteArticle i, res)"
proof -
  let ?tr1 = "tr @ [Called (GetArticleById i) (Inr (RArticleOpt (Some a)))]"
  from deleteFiles_run [of env a ?tr1] obtain evs1 where
    1: "deleteFiles env a ?tr1 = (Inr (), ?tr1 @ evs1)"
       "calls evs1 = (if article_status a = DRAFT
                      then map (\<lambda>f. DeleteFile (JStr (file_id f))) (articleFiles a) else [])"
       "failures_logged evs1" by blast
  let ?res = "map_sum (\<lambda>e. e) (\<lambda>u. RUnit) (deleteArticleUsecase env (?tr1 @ evs1) i)"
  let ?evs = "Called (GetArticleById i) (Inr (RArticleOpt (Some a))) # evs1 @ [Called (DeleteArticle i) ?res]"
  have "delete env i (Some u) tr =
             ((case ?res of
                 Inr v \<Rightarrow> Inr ()
               | Inl e \<Rightarrow>
                   if instanceof e NotFoundException then Inl e
                   else Inl (Exn (HttpException 500)
                              ''Failed to delete article and associated files'')),
              tr @ ?evs)"
    using assms 1(1)
    by (cases "deleteArticleUsecase env (?tr1 @ evs1) i")
       (auto simp: delete_def deleteTry_def try_catch_def await_def throw_def
          getArticleByIdQuery_execute_def deleteArticleUsecase_execute_def perform_def)
  moreover have "calls ?evs = GetArticleById i #
             (if article_status a = DRAFT
              then map (\<lambda>f. DeleteFile (JStr (file_id f))) (articleFiles a) else []) @
             [DeleteArticle i]"
    using 1(2) by simp
  moreover have "failures_logged ?evs"
    using 1(3) failures_logged_append [of evs1 "[Called (DeleteArticle i) ?res]"] by simp
  moreover have "last_call ?evs = Some (DeleteArticle i, ?res)"
    by (simp add: last_call_append)
  ultimately show ?thesis by blast
qed

theorem delete_files_only_for_draft_witness:
  "calls (snd (delete sample_env ''a1'' (Some sample_editor) [])) =
     [GetArticleById ''a1'', DeleteFile (JStr ''F''), DeleteFile (JStr ''A''),
      DeleteFile (JStr ''B''), DeleteFile (JStr ''C''), DeleteFile (JStr ''V''),
      DeleteArticle ''a1''] \<and>
   Called (DeleteFile (JStr ''B'')) (Inl (Exn OtherError ''storage offline''))
     \<in> set (snd (delete sample_env ''a1'' (Some sample_editor) [])) \<and>
   Logged [LStr ''Failed to delete image: storage offline'']
     \<in> set (snd (delete sample_env ''a1'' (Some sample_editor) [])) \<and>
   fst (delete sample_env ''a1'' (Some sample_editor) []) = Inr () \<and>
   calls (snd (delete sample_env ''a2'' (Some sample_editor) [])) =
     [GetArticleById ''a2'', DeleteArticle ''a2''] \<and>
   fst (delete sample_env ''a2'' (Some sample_editor) []) = Inr ()"
proof -
  have r: "user_role sample_editor \<in> {ADMIN, EDITOR}"
    by (simp add: sample_editor_def)
  have q1: "getArticleByIdQuery sample_env [] ''a1'' = Inr (Some sample_article)"
    and q2: "getArticleByIdQuery sample_env [] ''a2'' = Inr (Some published_article)"
    by (simp_all add: sample_env_def)
  from delete_files_only_for_draft [OF r q1] obtain evs1 where
    "snd (delete sample_env ''a1'' (Some sample_editor) []) = evs1"
    "calls evs1 = GetArticleById ''a1'' #
       (if article_status sample_article = DRAFT
        then map (\<lambda>f. DeleteFile (JStr (file_id f))) (articleFiles sample_article) else []) @
       [DeleteArticle ''a1'']"
    by auto
  then have 1: "calls (snd (delete sample_env ''a1'' (Some sample_editor) [])) =
     [GetArticleById ''a1'', DeleteFile (JStr ''F''), DeleteFile (JStr ''A''),
      DeleteFile (JStr ''B''), DeleteFile (JStr ''C''), DeleteFile (JStr ''V''),
      DeleteArticle ''a1'']"
    by (simp add: sample_article_def articleFiles_def stored_def)
  from delete_files_only_for_draft [OF r q2] obtain evs2 where
    "snd (delete sample_env ''a2'' (Some sample_editor) []) = evs2"
    "calls evs2 = GetArticleById ''a2'' #
       (if article_status published_article = DRAFT
        then map (\<lambda>f. DeleteFile (JStr (file_id f))) (articleFiles published_article) else []) @
       [DeleteArticle ''a2'']"
    by auto
  then have 2: "calls (snd (delete sample_env ''a2'' (Some sample_editor) [])) =
     [GetArticleById ''a2'', DeleteArticle ''a2'']"
    by (simp add: published_article_def sample_article_def)
  have 3: "Called (DeleteFile (JStr ''B'')) (Inl (Exn OtherError ''storage offline''))
     \<in> set (snd (delete sample_env ''a1'' (Some sample_editor) []))"
    by code_simp
  have 4: "Logged [LStr ''Failed to delete image: storage offline'']
     \<in> set (snd (delete sample_env ''a1'' (Some sample_editor) []))"
    by code_simp
  have 5: "fst (delete sample_env ''a1'' (Some sample_editor) []) = Inr ()"
    "fst (delete sample_env ''a2'' (Some sample_editor) []) = Inr ()"
    by code_simp+
  from 1 2 3 4 5 show ?thesis by blast
qed

section \<open>Claims about findById\<close>

text \<open>
  C9. A get-by-id request of a caller with role AUTHOR, for an identifier that the query
  resolves to an article: when the article's author is not the caller the request fails
  with Forbidden, thrown as it is; when the author is the caller the request returns the
  article's display form with its related articles. In both cases the query is the one
  call issued.
\<close>

theorem findById_author:
  assumes "user_role u = AUTHOR" and "getArticleByIdQuery env tr i = Inr (Some a)"
  shows "findById env i (Some u) tr =
           ((if article_authorId a \<noteq> user_id u
             then Inl (Exn ForbiddenException ''You are not authorized to access this article.'')
             else Inr \<lparr>dr_article = mapToDisplayDto a,
                       dr_relatedArticles =
                         (if article_status a = PUBLISHED
                          then map relatedArticleDto (article_relatedArticles a) else [])\<rparr>),
            tr @ [Called (GetArticleById i) (Inr (RArticleOpt (Some a)))])"
  using assms
  by (simp add: findById_def findByIdTry_def try_catch_def await_def throw_def return_io_def
        getArticleByIdQuery_execute_def perform_def displayWithRelated_def)

theorem findById_author_witness:
  "fst (findById sample_env ''a1'' (Some other_author) []) =
     Inl (Exn ForbiddenException ''You are not authorized to access this article.'') \<and>
   fst (findById sample_env ''a1'' (Some sample_author) []) =
     Inr \<lparr>dr_article = mapToDisplayDto sample_article, dr_relatedArticles = []\<rparr> \<and>
   dd_id (mapToDisplayDto sample_article) = ''a1''"
proof -
  have q: "getArticleByIdQuery sample_env [] ''a1'' = Inr (Some sample_article)"
    by (simp add: sample_env_def)
  have o: "user_role other_author = AUTHOR" "user_role sample_author = AUTHOR"
    by (simp_all add: other_author_def sample_author_def)
  from findById_author [OF o(1) q] findById_author [OF o(2) q] show ?thesis
    by (simp add: sample_article_def other_author_def sample_author_def mapToDisplayDto_def)
qed

section \<open>Claims about update\<close>

text \<open>
  C3. An update request whose identifier the query does not resolve to an article (the
  query returns \<^verbatim>\<open>null\<close> or is rejected) fails, and what it throws is a BadRequest
  that wraps the underlying message: the message of the rejection; without a caller the
  one of the Unauthorized; for an author the one of the TypeError, because the owner is
  read from the article before the article is tested; otherwise the one of the NotFound.
\<close>

theorem update_unresolved:
  assumes "\<And>a. getArticleByIdQuery env tr i \<noteq> Inr (Some a)"
  shows "\<exists>tr'. update env i dto files user tr =
           (Inl (Exn BadRequestException
                  (''Failed to update article: '' @
                   (case getArticleByIdQuery env tr i of
                      Inl e \<Rightarrow> message_or_unknown e
                    | Inr x \<Rightarrow>
                        (case user of
                           None \<Rightarrow> ''Authentication required''
                         | Some u \<Rightarrow>
                             if user_role u = AUTHOR
                             then ''Cannot read properties of null (reading 'authorId')''
                             else ''Article not found'')))), tr')"
proof (cases "getArticleByIdQuery env tr i")
  case (Inl e)
  then show ?thesis
    by (cases e)
       (simp_all add: update_def updateTry_def try_catch_def await_def throw_def
          getArticleByIdQuery_execute_def perform_def console_error_def)
next
  case (Inr x)
  with assms have "x = None" by (cases x) auto
  with Inr show ?thesis
    by (simp add: update_def updateTry_def updateChecks_def try_catch_def await_def throw_def
          lift_def getArticleByIdQuery_execute_def perform_def console_error_def
          split: option.splits)
qed

theorem update_unresolved_witness:
  "fst (update sample_env ''nope'' empty_update no_files (Some sample_editor) []) =
     Inl (Exn BadRequestException ''Failed to update article: Article not found'') \<and>
   fst (update sample_env ''nope'' empty_update no_files (Some sample_author) []) =
     Inl (Exn BadRequestException
           ''Failed to update article: Cannot read properties of null (reading 'authorId')'')"
proof -
  have q: "\<And>a. getArticleByIdQuery sample_env [] ''nope'' \<noteq> Inr (Some a)"
    by (simp add: sample_env_def)
  from update_unresolved [of sample_env "[]" "''nope''" empty_update no_files "Some sample_editor", OF q]
  have 1: "fst (update sample_env ''nope'' empty_update no_files (Some sample_editor) []) =
     Inl (Exn BadRequestException ''Failed to update article: Article not found'')"
    by (auto simp: sample_env_def sample_editor_def)
  from update_unresolved [of sample_env "[]" "''nope''" empty_update no_files "Some sample_author", OF q]
  have 2: "fst (update sample_env ''nope'' empty_update no_files (Some sample_author) []) =
     Inl (Exn BadRequestException
           ''Failed to update article: Cannot read properties of null (reading 'authorId')'')"
    by (auto simp: sample_env_def sample_author_def)
  from 1 2 show ?thesis ..
qed

lemma uploaded_append [simp]: "uploaded (xs @ ys) = uploaded xs @ uploaded ys"
  by (induction xs rule: uploaded.induct) auto

lemma update_cmds_append [simp]: "update_cmds (xs @ ys) = update_cmds xs @ update_cmds ys"
  by (induction xs rule: update_cmds.induct) auto

lemma deletions_quiet:
  "\<forall>ev \<in> set evs. isDeletion ev \<Longrightarrow> uploaded evs = [] \<and> update_cmds evs = []"
proof (induction evs)
  case Nil
  then show ?case by simp
next
  case (Cons ev evs)
  then have "isDeletion ev" by simp
  then show ?case using Cons by (cases ev rule: isDeletion.cases) auto
qed

lemma emits_logFailures: "emits isDeletion (logFailures targets rs)"
  by (induction targets rs rule: logFailures.induct) (auto intro!: emits_intros)

lemma logFailures_returns: "fst (logFailures targets rs tr) = Inr ()"
  by (induction targets rs arbitrary: tr rule: logFailures.induct)
     (auto simp: await_def console_error_def return_io_def)

lemma deleteRemoved_run:
  "\<exists>evs. deleteRemoved env xs ys tr = (Inr (), tr @ evs) \<and> uploaded evs = [] \<and> update_cmds evs = []"
proof -
  let ?targets = "map (Pair ''image'') xs @ map (Pair ''video'') ys"
  let ?ms = "map (\<lambda>(kind, fileId). deleteFile env fileId) ?targets"
  have "\<forall>m \<in> set ?ms. emits isDeletion m"
    by (auto simp: deleteFile_def intro!: emits_perform)
  from settle_emits [OF this, of tr] obtain e1 where
    1: "snd (settle ?ms tr) = tr @ e1" "\<forall>ev \<in> set e1. isDeletion ev" by blast
  obtain rs where rs: "settle ?ms tr = (rs, tr @ e1)" using 1(1) by (cases "settle ?ms tr") auto
  obtain r2 tr2 where l: "logFailures ?targets rs (tr @ e1) = (r2, tr2)"
    by (cases "logFailures ?targets rs (tr @ e1)")
  from emitsD [OF emits_logFailures l] obtain e2 where
    2: "tr2 = (tr @ e1) @ e2" "\<forall>ev \<in> set e2. isDeletion ev" by blast
  from logFailures_returns [of ?targets rs "tr @ e1"] l have r2: "r2 = Inr ()" by simp
  from 1(2) 2(2) have "\<forall>ev \<in> set (e1 @ e2). isDeletion ev" by auto
  from deletions_quiet [OF this] rs l 2(1) r2 show ?thesis
    by (intro exI [of _ "e1 @ e2"]) (simp add: deleteRemoved_def Let_def)
qed

lemma updateFeatured_run:
  assumes "updateFeatured env a field tr = (r, tr')"
  shows "\<exists>evs. tr' = tr @ evs \<and> update_cmds evs = [] \<and>
           (\<forall>fo. r = Inr fo \<longrightarrow> uploaded evs = (case fo of None \<Rightarrow> [] | Some f \<Rightarrow> [f]))"
  using assms
  by (auto simp: updateFeatured_def return_io_def await_def try_catch_def uploadFile_def
        deleteFile_def perform_def console_error_def
        split: option.splits list.splits sum.splits prod.splits)

lemma settle_uploads:
  assumes "settle (map (\<lambda>file. uploadFile env (mf_buffer file) (mf_originalname file)
                                   (mf_mimetype file)) fs) tr = (rs, tr')"
  shows "\<exists>evs. tr' = tr @ evs \<and> update_cmds evs = [] \<and>
           calls evs = map (\<lambda>file. UploadFile (mf_buffer file) (mf_originalname file)
                                     (mf_mimetype file)) fs \<and>
           (\<forall>ups. gather rs = Inr ups \<longrightarrow> uploaded evs = ups \<and> length ups = length fs)"
  using assms
proof (induction fs arbitrary: tr rs tr')
  case Nil
  then show ?case by auto
next
  case (Cons f fs)
  let ?up = "\<lambda>file. uploadFile env (mf_buffer file) (mf_originalname file) (mf_mimetype file)"
  obtain r1 tr1 where u: "?up f tr = (r1, tr1)" by (cases "?up f tr")
  obtain rs1 tr2 where s: "settle (map ?up fs) tr1 = (rs1, tr2)"
    by (cases "settle (map ?up fs) tr1")
  from Cons.prems u s have rs: "rs = r1 # rs1" and tr': "tr' = tr2" by auto
  from u have tr1: "tr1 = tr @ [Called (UploadFile (mf_buffer f) (mf_originalname f) (mf_mimetype f))
                                  (map_sum (\<lambda>e. e) RFile r1)]"
    by (auto simp: uploadFile_def perform_def)
  from Cons.IH [OF s] obtain evs where
    e: "tr2 = tr1 @ evs" "update_cmds evs = []"
       "calls evs = map (\<lambda>file. UploadFile (mf_buffer file) (mf_originalname file)
                                     (mf_mimetype file)) fs"
       "\<forall>ups. gather rs1 = Inr ups \<longrightarrow> uploaded evs = ups \<and> length ups = length fs" by blast
  show ?case
    using rs tr' tr1 e
    by (intro exI [of _ "Called (UploadFile (mf_buffer f) (mf_originalname f) (mf_mimetype f))
                                  (map_sum (\<lambda>e. e) RFile r1) # evs"])
       (cases r1; auto split: sum.splits)
qed

lemma updateUploads_run:
  assumes "updateUploads env field tr = (r, tr')"
  shows "\<exists>evs. tr' = tr @ evs \<and> update_cmds evs = [] \<and>
           calls evs = map (\<lambda>file. UploadFile (mf_buffer file) (mf_originalname file)
                                     (mf_mimetype file))
                         (case field of None \<Rightarrow> [] | Some fs \<Rightarrow> fs) \<and>
           (\<forall>ups. r = Inr ups \<longrightarrow>
              uploaded evs = ups \<and>
              length ups = length (case field of None \<Rightarrow> [] | Some fs \<Rightarrow> fs))"
proof (cases field)
  case None
  with assms show ?thesis by (auto simp: updateUploads_def return_io_def)
next
  case (Some fs)
  let ?up = "\<lambda>file. uploadFile env (mf_buffer file) (mf_originalname file) (mf_mimetype file)"
  obtain rs tr1 where s: "settle (map ?up fs) tr = (rs, tr1)" by (cases "settle (map ?up fs) tr")
  with assms Some have "r = gather rs" "tr' = tr1"
    by (auto simp: updateUploads_def promise_all_def)
  with settle_uploads [OF s] Some show ?thesis by auto
qed


lemma updateTry_trace:
  assumes run: "updateTry env i dto files user tr = (r, tr')"
      and existing: "getArticleByIdQuery env tr i = Inr (Some a)"
  shows "\<exists>evs. tr' = tr @ evs \<and>
           (update_cmds evs = [] \<or>
            (\<exists>fo ui uv.
               update_cmds evs =
                 [updateCommand i dto a (parseArrayField env (ud_removedImages dto))
                    (parseArrayField env (ud_removedVideos dto))
                    (parseArrayField env (ud_removedTags dto))
                    (parseArrayField env (ud_tags dto)) fo ui uv] \<and>
               uploaded evs = (case fo of None \<Rightarrow> [] | Some f \<Rightarrow> [f]) @ ui @ uv \<and>
               length ui = length (case uf_images files of None \<Rightarrow> [] | Some fs \<Rightarrow> fs) \<and>
               length uv = length (case uf_videos files of None \<Rightarrow> [] | Some fs \<Rightarrow> fs)))"
proof -
  let ?G = "Called (GetArticleById i) (Inr (RArticleOpt (Some a)))"
  let ?RI = "parseArrayField env (ud_removedImages dto)"
  let ?RV = "parseArrayField env (ud_removedVideos dto)"
  let ?RT = "parseArrayField env (ud_removedTags dto)"
  let ?TI = "parseArrayField env (ud_tags dto)"
  have q: "getArticleByIdQuery_execute env i tr = (Inr (Some a), tr @ [?G])"
    using existing by (simp add: getArticleByIdQuery_execute_def perform_def)
  show ?thesis
  proof (cases "updateChecks user (Some a)")
    case (Inl e)
    with run q have "tr' = tr @ [?G]"
      by (simp add: updateTry_def await_def lift_def)
    then show ?thesis by (intro exI [of _ "[?G]"]) simp
  next
    case (Inr a')
    then have a': "a' = a"
      by (auto simp: updateChecks_def split: option.splits if_splits)
    from deleteRemoved_run [of env ?RI ?RV "tr @ [?G]"] obtain e1 where
      d: "deleteRemoved env ?RI ?RV (tr @ [?G]) = (Inr (), (tr @ [?G]) @ e1)"
      and e1: "uploaded e1 = []" "update_cmds e1 = []" by blast
    let ?t1 = "(tr @ [?G]) @ e1"
    obtain rf tf where f: "updateFeatured env a (uf_featuredMedia files) ?t1 = (rf, tf)"
      by (cases "updateFeatured env a (uf_featuredMedia files) ?t1")
    from updateFeatured_run [OF f] obtain e2 where
      tf: "tf = ?t1 @ e2" and e2: "update_cmds e2 = []"
        "\<forall>fo. rf = Inr fo \<longrightarrow> uploaded e2 = (case fo of None \<Rightarrow> [] | Some f \<Rightarrow> [f])" by blast
    obtain ri ti where im: "updateUploads env (uf_images files) tf = (ri, ti)"
      by (cases "updateUploads env (uf_images files) tf")
    from updateUploads_run [OF im] obtain e3 where
      ti: "ti = tf @ e3" and e3: "update_cmds e3 = []"
        "\<forall>ups. ri = Inr ups \<longrightarrow> uploaded e3 = ups \<and>
           length ups = length (case uf_images files of None \<Rightarrow> [] | Some fs \<Rightarrow> fs)" by blast
    obtain rv tv where vi: "updateUploads env (uf_videos files) ti = (rv, tv)"
      by (cases "updateUploads env (uf_videos files) ti")
    from updateUploads_run [OF vi] obtain e4 where
      tv: "tv = ti @ e4" and e4: "update_cmds e4 = []"
        "\<forall>ups. rv = Inr ups \<longrightarrow> uploaded e4 = ups \<and>
           length ups = length (case uf_videos files of None \<Rightarrow> [] | Some fs \<Rightarrow> fs)" by blast
    have step: "updateTry env i dto files user tr =
      (case rf of
         Inl e \<Rightarrow> (Inl e, tf)
       | Inr fo \<Rightarrow>
           (case ri of
              Inl e \<Rightarrow> (Inl e, ti)
            | Inr ui \<Rightarrow>
                (case rv of
                   Inl e \<Rightarrow> (Inl e, tv)
                 | Inr uv \<Rightarrow>
                     await (updateArticleUsecase_execute env
                              (updateCommand i dto a ?RI ?RV ?RT ?TI fo ui uv)) (\<lambda>u.
                     await (getArticleByIdQuery_execute env i) (\<lambda>refreshedArticle.
                       displayOf refreshedArticle)) tv)))"
      using q Inr a' d f im vi
      by (simp add: updateTry_def await_def lift_def Let_def split: sum.splits)
    show ?thesis
    proof (cases rf)
      case (Inl e)
      with step run have "tr' = tf" by simp
      with tf e1 e2 show ?thesis by (intro exI [of _ "?G # e1 @ e2"]) simp
    next
      case fo: (Inr fo)
      show ?thesis
      proof (cases ri)
        case (Inl e)
        with step run fo have "tr' = ti" by simp
        with tf ti e1 e2 e3 show ?thesis by (intro exI [of _ "?G # e1 @ e2 @ e3"]) simp
      next
        case ui: (Inr ui)
        show ?thesis
        proof (cases rv)
          case (Inl e)
          with step run fo ui have "tr' = tv" by simp
          with tf ti tv e1 e2 e3 e4 show ?thesis
            by (intro exI [of _ "?G # e1 @ e2 @ e3 @ e4"]) simp
        next
          case uv: (Inr uv)
          let ?c = "updateCommand i dto a ?RI ?RV ?RT ?TI fo ui uv"
          from step run fo ui uv have
            "await (updateArticleUsecase_execute env ?c) (\<lambda>u.
             await (getArticleByIdQuery_execute env i) (\<lambda>refreshedArticle.
               displayOf refreshedArticle)) tv = (r, tr')" by simp
          then obtain e5 where e5: "tr' = tv @ e5" "update_cmds e5 = [?c]" "uploaded e5 = []"
            by (auto simp: await_def updateArticleUsecase_execute_def
                  getArticleByIdQuery_execute_def perform_def displayOf_def throw_def return_io_def
                  split: sum.splits option.splits prod.splits)
          let ?evs = "?G # e1 @ e2 @ e3 @ e4 @ e5"
          from e5 tf ti tv have 1: "tr' = tr @ ?evs" by simp
          from e1 e2 e3 e4 e5 have 2: "update_cmds ?evs = [?c]" by simp
          from e1 e2 e3 e4 e5 fo ui uv have
            3: "uploaded ?evs = (case fo of None \<Rightarrow> [] | Some f \<Rightarrow> [f]) @ ui @ uv" by simp
          from e3 e4 ui uv have
            4: "length ui = length (case uf_images files of None \<Rightarrow> [] | Some fs \<Rightarrow> fs)"
               "length uv = length (case uf_videos files of None \<Rightarrow> [] | Some fs \<Rightarrow> fs)"
            by simp_all
          from 1 2 3 4 show ?thesis by blast
        qed
      qed
    qed
  qed
qed

text \<open>
  The rule that \<open>update\<close> follows. Take a run for an article \<open>a\<close> that the query
  found, and a command \<open>c\<close> that the run handed to the update use case. The files that
  the uploads of the run returned are, in the order of the calls, the featured media if
  one was sent, then the new images, one for each image file of the request, then the
  new videos likewise. The images of \<open>c\<close> are the images of \<open>a\<close> without those whose
  identifier \<^verbatim>\<open>includes\<close> finds in the list that \<open>parseArrayField\<close> makes of
  \<^verbatim>\<open>removedImages\<close>, in their order, followed by the new images; the same holds of the
  videos. For the example of the spec the images are \<open>C\<close> and \<open>D\<close>.
\<close>

theorem update_images_videos:
  assumes run: "update env i dto files user tr = (r, tr @ evs)"
      and existing: "getArticleByIdQuery env tr i = Inr (Some a)"
      and cmd: "c \<in> set (update_cmds evs)"
  shows "\<exists>featured newImages newVideos.
           uploaded evs = featured @ newImages @ newVideos \<and>
           length featured \<le> 1 \<and>
           length newImages = length (case uf_images files of None \<Rightarrow> [] | Some fs \<Rightarrow> fs) \<and>
           length newVideos = length (case uf_videos files of None \<Rightarrow> [] | Some fs \<Rightarrow> fs) \<and>
           uc_images c =
             Some (filter (\<lambda>file. \<not> array_includes (parseArrayField env (ud_removedImages dto))
                                       (file_id file))
                     (case article_images a of None \<Rightarrow> [] | Some fs \<Rightarrow> fs) @ newImages) \<and>
           uc_videos c =
             Some (filter (\<lambda>file. \<not> array_includes (parseArrayField env (ud_removedVideos dto))
                                       (file_id file))
                     (case article_videos a of None \<Rightarrow> [] | Some fs \<Rightarrow> fs) @ newVideos)"
proof -
  obtain r0 tr0 where t: "updateTry env i dto files user tr = (r0, tr0)"
    by (cases "updateTry env i dto files user tr")
  from updateTry_trace [OF t existing] obtain evs0 where
    tr0: "tr0 = tr @ evs0" and k: "update_cmds evs0 = [] \<or>
            (\<exists>fo ui uv.
               update_cmds evs0 =
                 [updateCommand i dto a (parseArrayField env (ud_removedImages dto))
                    (parseArrayField env (ud_removedVideos dto))
                    (parseArrayField env (ud_removedTags dto))
                    (parseArrayField env (ud_tags dto)) fo ui uv] \<and>
               uploaded evs0 = (case fo of None \<Rightarrow> [] | Some f \<Rightarrow> [f]) @ ui @ uv \<and>
               length ui = length (case uf_images files of None \<Rightarrow> [] | Some fs \<Rightarrow> fs) \<and>
               length uv = length (case uf_videos files of None \<Rightarrow> [] | Some fs \<Rightarrow> fs))"
    by blast
  from run t tr0 have "evs = evs0 \<or> (\<exists>parts. evs = evs0 @ [Logged parts])"
    by (auto simp: update_def try_catch_def await_def console_error_def throw_def
          split: sum.splits exn.splits)
  then have same: "update_cmds evs = update_cmds evs0" "uploaded evs = uploaded evs0"
    by auto
  with cmd k obtain fo ui uv where
    c: "c = updateCommand i dto a (parseArrayField env (ud_removedImages dto))
                    (parseArrayField env (ud_removedVideos dto))
                    (parseArrayField env (ud_removedTags dto))
                    (parseArrayField env (ud_tags dto)) fo ui uv"
    and u: "uploaded evs0 = (case fo of None \<Rightarrow> [] | Some f \<Rightarrow> [f]) @ ui @ uv"
      "length ui = length (case uf_images files of None \<Rightarrow> [] | Some fs \<Rightarrow> fs)"
      "length uv = length (case uf_videos files of None \<Rightarrow> [] | Some fs \<Rightarrow> fs)"
    by auto
  show ?thesis
    using c u same
    by (intro exI [of _ "case fo of None \<Rightarrow> [] | Some f \<Rightarrow> [f]"] exI [of _ ui] exI [of _ uv])
       (simp add: updateCommand_def Let_def split: option.splits)
qed

theorem update_images_videos_witness:
  "(\<exists>featured newImages newVideos.
      uploaded (snd (update sample_env ''a1'' remove_AB upload_D (Some sample_author) [])) =
        featured @ newImages @ newVideos \<and>
      length featured \<le> 1 \<and> length newImages = 1 \<and> length newVideos = 0 \<and>
      uc_images (hd (update_cmds (snd (update sample_env ''a1'' remove_AB upload_D
                                        (Some sample_author) [])))) =
        Some ([stored ''C''] @ newImages)) \<and>
   uploaded (snd (update sample_env ''a1'' remove_AB upload_D (Some sample_author) [])) =
     [stored ''D''] \<and>
   map uc_images (update_cmds (snd (update sample_env ''a1'' remove_AB upload_D
                                     (Some sample_author) []))) =
     [Some [stored ''C'', stored ''D'']]"
proof -
  let ?run = "update sample_env ''a1'' remove_AB upload_D (Some sample_author) []"
  let ?c = "hd (update_cmds (snd ?run))"
  have run: "?run = (fst ?run, [] @ snd ?run)" by simp
  have q: "getArticleByIdQuery sample_env [] ''a1'' = Inr (Some sample_article)"
    by (simp add: sample_env_def)
  have c: "?c \<in> set (update_cmds (snd ?run))" by code_simp
  have f: "filter (\<lambda>file. \<not> array_includes (parseArrayField sample_env (ud_removedImages remove_AB))
                                       (file_id file))
                     (case article_images sample_article of None \<Rightarrow> [] | Some fs \<Rightarrow> fs) = [stored ''C'']"
    by code_simp
  have n: "length (case uf_images upload_D of None \<Rightarrow> [] | Some fs \<Rightarrow> fs) = 1"
          "length (case uf_videos upload_D of None \<Rightarrow> [] | Some fs \<Rightarrow> fs) = 0"
    by code_simp+
  from update_images_videos [OF run q c] have
    1: "\<exists>featured newImages newVideos.
      uploaded (snd ?run) = featured @ newImages @ newVideos \<and>
      length featured \<le> 1 \<and> length newImages = 1 \<and> length newVideos = 0 \<and>
      uc_images ?c = Some ([stored ''C''] @ newImages)"
    unfolding f n by blast
  have 2: "uploaded (snd ?run) = [stored ''D'']" by code_simp
  have 3: "map uc_images (update_cmds (snd ?run)) = [Some [stored ''C'', stored ''D'']]"
    by code_simp
  from 1 2 3 show ?thesis by blast
qed

text \<open>
  C5. The claim does not hold of the code when an identifier in \<^verbatim>\<open>removedImages\<close>
  reads as a JSON value that is no string. \<open>parseArrayField\<close>, declared to return
  \<^verbatim>\<open>string[]\<close>, returns what \<^verbatim>\<open>JSON.parse\<close> made of the field, so the identifier
  \<open>123\<close> sent as the string \<^verbatim>\<open>123\<close> becomes the number 123. The deletion of the
  file is issued for that number, but \<^verbatim>\<open>includes\<close> compares with the strict equality
  and does not find the string \<open>123\<close> in the list: the image whose identifier is in
  \<^verbatim>\<open>removedImages\<close> stays in the sequence handed to the use case and in the article
  returned. The same identifier sent in an array is removed.
\<close>

theorem removed_image_kept:
  "parseArrayField numbered_env (ud_removedImages remove_123_text) = [JNum 123] \<and>
   calls (snd (update numbered_env ''a3'' remove_123_text no_files (Some sample_editor) [])) =
     [GetArticleById ''a3'', DeleteFile (JNum 123),
      UpdateArticle (updateCommand ''a3'' remove_123_text numbered_article [JNum 123] [] [] []
                       None [] []),
      GetArticleById ''a3''] \<and>
   map uc_images (update_cmds (snd (update numbered_env ''a3'' remove_123_text no_files
                                     (Some sample_editor) []))) =
     [Some [stored ''123'', stored ''C'']] \<and>
   map uc_images (update_cmds (snd (update numbered_env ''a3'' remove_123_array no_files
                                     (Some sample_editor) []))) =
     [Some [stored ''C'']]"
  by code_simp

text \<open>
  C2. The claim does not hold of the code: \<open>update\<close>, \<open>create\<close> and \<open>delete\<close> throw their
  authorization failures inside the \<^verbatim>\<open>try\<close> whose \<^verbatim>\<open>catch\<close> wraps whatever it catches.
  An author who updates the article of another author gets a BadRequest, a create
  request without a caller gets a BadRequest, a delete request without a caller gets
  status 500; \<open>findById\<close> throws the same Forbidden as it is.
\<close>

theorem authorization_failure_rewrapped:
  "fst (update sample_env ''a1'' empty_update no_files (Some other_author) []) =
     Inl (Exn BadRequestException
           ''Failed to update article: Only the author owner can update this article'') \<and>
   fst (create sample_env sample_dto files1 None []) =
     Inl (Exn BadRequestException ''Failed to create article: Authentication required'') \<and>
   fst (delete sample_env ''a1'' None []) =
     Inl (Exn (HttpException 500) ''Failed to delete article and associated files'') \<and>
   fst (findById sample_env ''a1'' (Some other_author) []) =
     Inl (Exn ForbiddenException ''You are not authorized to access this article.'')"
  by code_simp

section \<open>Files without bytes\<close>

lemma uploadEach_skips:
  "uploadEach env (filter hasBuffer fs) = uploadEach env fs"
  by (induction fs) (auto simp: hasBuffer_def split: option.splits)

lemma uploadGroup_skips: "uploadGroup env (keepBuffered field) = uploadGroup env field"
  by (cases field) (simp_all add: uploadGroup_def uploadEach_skips)

lemma isTruthyString_keepBuffered [simp]: "isTruthyString (keepBuffered field) = isTruthyString field"
  by (cases field) simp_all

text \<open>
  What \<open>create\<close> does with a file that has no buffer. A file of the image group or of
  the video group without a buffer is skipped: the run is the run of the same request
  without these files, so no upload is issued for them, they raise no error, and the
  other files of the group are processed. When the featured file has no buffer the run is
  the run of the request without a featured file. No run of \<open>create\<close> issues an upload
  without a buffer.
\<close>

theorem create_skips_bufferless:
  "create env dto files user =
     create env dto (files\<lparr>cf_images := keepBuffered (cf_images files),
                            cf_videos := keepBuffered (cf_videos files)\<rparr>) user \<and>
   (\<forall>first rest. cf_featuredMedia files = FilesField (first # rest) \<and> mf_buffer first = None \<longrightarrow>
      create env dto files user = create env dto (files\<lparr>cf_featuredMedia := NoField\<rparr>) user) \<and>
   (\<forall>tr b n m res.
      Called (UploadFile b n m) res \<in> set (drop (length tr) (snd (create env dto files user tr)))
      \<longrightarrow> b \<noteq> None)"
proof (intro conjI allI impI)
  show "create env dto files user =
     create env dto (files\<lparr>cf_images := keepBuffered (cf_images files),
                            cf_videos := keepBuffered (cf_videos files)\<rparr>) user"
  proof -
    have "createBody env (files\<lparr>cf_images := keepBuffered (cf_images files),
                                   cf_videos := keepBuffered (cf_videos files)\<rparr>) pts ids a =
          createBody env files pts ids a" for pts ids a
      by (simp add: createBody_def uploadGroup_skips)
    then show ?thesis
      by (cases user) (simp_all add: create_def createTry_def)
  qed
next
  fix first rest
  assume "cf_featuredMedia files = FilesField (first # rest) \<and> mf_buffer first = None"
  then show "create env dto files user = create env dto (files\<lparr>cf_featuredMedia := NoField\<rparr>) user"
  proof -
    assume f: "cf_featuredMedia files = FilesField (first # rest) \<and> mf_buffer first = None"
    then have "createBody env (files\<lparr>cf_featuredMedia := NoField\<rparr>) pts ids a =
          createBody env files pts ids a" for pts ids a
      by (simp add: createBody_def createFeatured_def)
    with f show ?thesis
      by (cases user) (simp_all add: create_def createTry_def)
  qed
next
  fix tr b n m res
  assume a: "Called (UploadFile b n m) res \<in> set (drop (length tr) (snd (create env dto files user tr)))"
  obtain r tr' where run: "create env dto files user tr = (r, tr')"
    by (cases "create env dto files user tr")
  from emitsD [OF emits_create run] obtain evs where "tr' = tr @ evs" "\<forall>ev \<in> set evs. createEvent ev"
    by blast
  with a run have "Called (UploadFile b n m) res \<in> set evs" "\<forall>ev \<in> set evs. createEvent ev"
    by simp_all
  then have "createEvent (Called (UploadFile b n m) res)" by blast
  then show "b \<noteq> None" by simp
qed

theorem create_skips_bufferless_witness:
  "create sample_env sample_dto files_mixed (Some sample_author) [] =
     create sample_env sample_dto
       (files_mixed\<lparr>cf_images := FilesField [png ''ok.png'' (Some ''abc''),
                                               png ''late.png'' (Some ''abc'')]\<rparr>)
       (Some sample_author) [] \<and>
   create sample_env sample_dto featured_empty (Some sample_author) [] =
     create sample_env sample_dto (featured_empty\<lparr>cf_featuredMedia := NoField\<rparr>)
       (Some sample_author) [] \<and>
   calls (snd (create sample_env sample_dto files_mixed (Some sample_author) [])) =
     [CreateArticle (createCommand sample_dto sample_author) sample_author,
      UploadFile (Some ''abc'') ''ok.png'' ''image/png'',
      UploadFile (Some ''abc'') ''late.png'' ''image/png'',
      UpdateArticle ((updateOf ''a1'')
                       \<lparr>uc_images := Some [fileRecord (stored ''ok.png'') (png ''ok.png'' (Some ''abc'')) 2,
                                            fileRecord (stored ''late.png'') (png ''late.png'' (Some ''abc'')) 3],
                        uc_videos := Some []\<rparr>),
      GetArticleById ''a1'']"
proof -
  have k: "files_mixed\<lparr>cf_images := keepBuffered (cf_images files_mixed),
                        cf_videos := keepBuffered (cf_videos files_mixed)\<rparr> =
           files_mixed\<lparr>cf_images := FilesField [png ''ok.png'' (Some ''abc''),
                                                   png ''late.png'' (Some ''abc'')]\<rparr>"
    by (simp add: files_mixed_def hasBuffer_def png_def)
  have f: "cf_featuredMedia featured_empty = FilesField [png ''E'' None]
           \<and> mf_buffer (png ''E'' None) = None"
    by (simp add: featured_empty_def png_def)
  from create_skips_bufferless [of sample_env sample_dto files_mixed "Some sample_author"]
  have 1: "create sample_env sample_dto files_mixed (Some sample_author) [] =
     create sample_env sample_dto
       (files_mixed\<lparr>cf_images := FilesField [png ''ok.png'' (Some ''abc''),
                                               png ''late.png'' (Some ''abc'')]\<rparr>)
       (Some sample_author) []"
    unfolding k by simp
  from create_skips_bufferless [of sample_env sample_dto featured_empty "Some sample_author"] f
  have "create sample_env sample_dto featured_empty (Some sample_author) =
     create sample_env sample_dto (featured_empty\<lparr>cf_featuredMedia := NoField\<rparr>)
       (Some sample_author)"
    by blast
  then have 2: "create sample_env sample_dto featured_empty (Some sample_author) [] =
     create sample_env sample_dto (featured_empty\<lparr>cf_featuredMedia := NoField\<rparr>)
       (Some sample_author) []"
    by simp
  have 3: "calls (snd (create sample_env sample_dto files_mixed (Some sample_author) [])) =
     [CreateArticle (createCommand sample_dto sample_author) sample_author,
      UploadFile (Some ''abc'') ''ok.png'' ''image/png'',
      UploadFile (Some ''abc'') ''late.png'' ''image/png'',
      UpdateArticle ((updateOf ''a1'')
                       \<lparr>uc_images := Some [fileRecord (stored ''ok.png'') (png ''ok.png'' (Some ''abc'')) 2,
                                            fileRecord (stored ''late.png'') (png ''late.png'' (Some ''abc'')) 3],
                        uc_videos := Some []\<rparr>),
      GetArticleById ''a1'']"
    by code_simp
  from 1 2 3 show ?thesis by blast
qed

text \<open>
  C8. The claim does not hold of \<open>update\<close>, which has no test of the buffer where
  \<open>create\<close> has one. An update request with one image file that has no buffer issues
  the upload all the same, with no bytes, and hands the file record it gets to the use
  case. An update request whose featured file has no buffer issues the upload likewise,
  and then deletes the featured media that the article had. A create request with the
  same files issues no upload.
\<close>

theorem update_uploads_bufferless:
  "calls (snd (update sample_env ''a1'' empty_update upload_empty (Some sample_author) [])) =
     [GetArticleById ''a1'', UploadFile None ''E'' ''image/png'',
      UpdateArticle (updateCommand ''a1'' empty_update sample_article [] [] [] [] None
                       [stored ''E''] []),
      GetArticleById ''a1''] \<and>
   calls (snd (update sample_env ''a1'' empty_update replace_empty (Some sample_author) [])) =
     [GetArticleById ''a1'', UploadFile None ''E'' ''image/png'', DeleteFile (JStr ''F''),
      UpdateArticle (updateCommand ''a1'' empty_update sample_article [] [] [] []
                       (Some (stored ''E'')) [] []),
      GetArticleById ''a1''] \<and>
   calls (snd (create sample_env sample_dto featured_empty (Some sample_author) [])) =
     [CreateArticle (createCommand sample_dto sample_author) sample_author,
      GetArticleById ''a1'']"
  by code_simp

section \<open>Claims about the parsing of request fields\<close>

lemma split_comma_no_comma: "CHR '','' \<notin> set x \<Longrightarrow> split_comma x = [x]"
  by (induction x) auto

lemma split_comma_append:
  "CHR '','' \<notin> set x \<Longrightarrow> split_comma (x @ CHR '','' # rest) = x # split_comma rest"
  by (induction x) auto

lemma split_join_comma:
  "ids \<noteq> [] \<Longrightarrow> \<forall>i \<in> set ids. CHR '','' \<notin> set i \<Longrightarrow> split_comma (join_comma ids) = ids"
  by (induction ids rule: join_comma.induct) (auto simp: split_comma_no_comma split_comma_append)

lemma join_comma_empty: "join_comma ids = [] \<longleftrightarrow> ids = [] \<or> ids = [[]]"
  by (induction ids rule: join_comma.induct) auto

lemma parseTagIds_join:
  assumes "\<forall>i \<in> set ids. CHR '','' \<notin> set i \<and> trim i = i" and "ids \<noteq> [[]]"
  shows "parseTagIds (TagIdsString (join_comma ids)) = ids"
proof (cases "ids = []")
  case True
  then show ?thesis by (simp add: parseTagIds_def)
next
  case False
  with assms have ne: "join_comma ids \<noteq> []" by (simp add: join_comma_empty)
  from assms False have "split_comma (join_comma ids) = ids"
    by (intro split_join_comma) auto
  moreover from assms(1) have "map trim ids = ids" by (intro map_idI) auto
  ultimately show ?thesis using ne by (simp add: parseTagIds_def)
qed

text \<open>
  C10, as amended. For every list of tag identifiers none of which contains a comma or
  begins or ends with white space (\<open>trim\<close> leaves it as it is), and which is not the list
  of the empty identifier alone, the \<open>tagIds\<close> field given as the array and given as the
  comma-separated string are parsed to the same list, and the two create requests are the
  same computation, so they resolve the same tags. The string form is split at commas
  and each piece is trimmed; the array form is taken as it is.
\<close>

theorem tagIds_array_or_string:
  assumes "\<forall>i \<in> set ids. CHR '','' \<notin> set i \<and> trim i = i" and "ids \<noteq> [[]]"
  shows "parseTagIds (TagIdsString (join_comma ids)) = parseTagIds (TagIdsArray ids) \<and>
         create env (dto\<lparr>cd_tagIds := TagIdsString (join_comma ids)\<rparr>) files user =
         create env (dto\<lparr>cd_tagIds := TagIdsArray ids\<rparr>) files user"
proof -
  from parseTagIds_join [OF assms] have
    p: "parseTagIds (TagIdsString (join_comma ids)) = parseTagIds (TagIdsArray ids)"
    by (simp add: parseTagIds_def)
  then have "createTry env (dto\<lparr>cd_tagIds := TagIdsString (join_comma ids)\<rparr>) files user =
             createTry env (dto\<lparr>cd_tagIds := TagIdsArray ids\<rparr>) files user"
    by (cases user) (simp_all add: createTry_def createCommand_def)
  with p show ?thesis by (simp add: create_def)
qed

theorem tagIds_array_or_string_witness:
  "parseTagIds (TagIdsString ''a,b'') = [''a'', ''b''] \<and>
   parseTagIds (TagIdsArray [''a'', ''b'']) = [''a'', ''b''] \<and>
   create sample_env (sample_dto\<lparr>cd_tagIds := TagIdsString ''a,b''\<rparr>) files1 (Some sample_author) =
   create sample_env (sample_dto\<lparr>cd_tagIds := TagIdsArray [''a'', ''b'']\<rparr>) files1 (Some sample_author)"
proof -
  have h: "\<forall>i \<in> set [''a'', ''b'']. CHR '','' \<notin> set i \<and> trim i = i"
    by (simp add: trim_def isWhiteSpace_def)
  have n: "[''a'', ''b''] \<noteq> [[]]" by simp
  have j: "join_comma [''a'', ''b''] = ''a,b''" by simp
  from tagIds_array_or_string [OF h n, of sample_env sample_dto files1 "Some sample_author"]
  show ?thesis unfolding j by (simp add: parseTagIds_def)
qed

text \<open>
  The claim as stated fails for an identifier with white space at an end, which the
  string form trims and the array form keeps, and for the list of the empty identifier,
  whose string form is the empty string and yields no identifier.
\<close>

theorem tagIds_array_or_string_counterexample:
  "CHR '','' \<notin> set '' a'' \<and>
   parseTagIds (TagIdsArray ['' a'']) = ['' a''] \<and>
   parseTagIds (TagIdsString (join_comma ['' a''])) = [''a''] \<and>
   CHR '','' \<notin> set '''' \<and>
   parseTagIds (TagIdsArray ['''']) = [''''] \<and>
   parseTagIds (TagIdsString (join_comma [''''])) = []"
  by (simp add: parseTagIds_def trim_def isWhiteSpace_def)

text \<open>What the parser of this file makes of the sample texts.\<close>

lemma sample_parses:
  "JSON_parse sample_env tags_array_text =
     Some (JArr [JObj [(''name'', JStr ''x''), (''nameAr'', JStr ''y'')]])"
  "JSON_parse sample_env tags_object_text = Some (JObj [(''name'', JStr ''x'')])"
  "JSON_parse sample_env tags_list_text = None"
  "JSON_parse sample_env (''['' @ tags_list_text @ '']'') =
     Some (JArr [JObj [(''name'', JStr ''x'')], JObj [(''name'', JStr ''y'')]])"
  "JSON_parse sample_env ''a,b'' = None"
  "JSON_parse sample_env (''['' @ ''a,b'' @ '']'') = None"
  "JSON_parse sample_env ids_array_text = Some (JArr [JStr ''A'', JStr ''B''])"
  "JSON_parse sample_env ''A, B'' = None"
  "JSON_parse sample_env ids_quoted_text = None"
  "JSON_parse sample_env (''['' @ ids_quoted_text @ '']'') = Some (JArr [JStr ''a'', JStr ''b''])"
  by code_simp+





lemma parseArrayField_depends:
  "JSON_parse env' s = JSON_parse env s \<Longrightarrow>
     parseArrayField env' (JStr s) = parseArrayField env (JStr s)"
  by (simp add: parseArrayField_def)

text \<open>
  C4, as amended. Each removal list of an update request is parsed by
  \<open>parseArrayField\<close>, and \<open>update\<close> sees the lists through it alone. A real array is
  flattened by one level and loses its \<^verbatim>\<open>null\<close> and \<^verbatim>\<open>undefined\<close> elements. A string
  is given to \<^verbatim>\<open>JSON.parse\<close> once, as a whole: an array result is treated like a real
  array, another result is a one-element list if it is truthy and the empty list if not.
  When \<^verbatim>\<open>JSON.parse\<close> throws, the string is split at commas, the pieces are trimmed and
  the empty ones dropped. The string is never parsed again in brackets, and no input
  raises an error.
\<close>

theorem parseArrayField_behaviour:
  "(\<forall>xs. parseArrayField env (JArr xs) = filter notNullish (flat xs)) \<and>
   (\<forall>s ys. s \<noteq> [] \<and> JSON_parse env s = Some (JArr ys) \<longrightarrow>
      parseArrayField env (JStr s) = parseArrayField env (JArr ys)) \<and>
   (\<forall>s v. s \<noteq> [] \<and> JSON_parse env s = Some v \<and> \<not> isArray v \<longrightarrow>
      parseArrayField env (JStr s) = (if truthy v then [v] else [])) \<and>
   (\<forall>s. JSON_parse env s = None \<longrightarrow>
      parseArrayField env (JStr s) =
        map JStr (filter (\<lambda>item. item \<noteq> []) (map trim (split_comma s)))) \<and>
   (\<forall>env' s. JSON_parse env' s = JSON_parse env s \<longrightarrow>
      parseArrayField env' (JStr s) = parseArrayField env (JStr s)) \<and>
   (\<forall>v1 v2 v3.
      parseArrayField env v1 = parseArrayField env (ud_removedImages dto) \<and>
      parseArrayField env v2 = parseArrayField env (ud_removedVideos dto) \<and>
      parseArrayField env v3 = parseArrayField env (ud_removedTags dto) \<longrightarrow>
      update env i (dto\<lparr>ud_removedImages := v1, ud_removedVideos := v2, ud_removedTags := v3\<rparr>)
        files user =
      update env i dto files user)"
proof (intro conjI allI impI)
  fix xs show "parseArrayField env (JArr xs) = filter notNullish (flat xs)"
    by (simp add: parseArrayField_def)
next
  fix s ys assume "s \<noteq> [] \<and> JSON_parse env s = Some (JArr ys)"
  then show "parseArrayField env (JStr s) = parseArrayField env (JArr ys)"
    by (simp add: parseArrayField_def)
next
  fix s v assume "s \<noteq> [] \<and> JSON_parse env s = Some v \<and> \<not> isArray v"
  then show "parseArrayField env (JStr s) = (if truthy v then [v] else [])"
    by (cases v) (simp_all add: parseArrayField_def)
next
  fix s assume "JSON_parse env s = None"
  then show "parseArrayField env (JStr s) =
        map JStr (filter (\<lambda>item. item \<noteq> []) (map trim (split_comma s)))"
    by (cases s) (simp_all add: parseArrayField_def trim_def)
next
  fix env' :: env and s assume "JSON_parse env' s = JSON_parse env s"
  then show "parseArrayField env' (JStr s) = parseArrayField env (JStr s)"
    by (rule parseArrayField_depends)
next
  fix v1 v2 v3
  assume a: "parseArrayField env v1 = parseArrayField env (ud_removedImages dto) \<and>
      parseArrayField env v2 = parseArrayField env (ud_removedVideos dto) \<and>
      parseArrayField env v3 = parseArrayField env (ud_removedTags dto)"
  have c: "updateCommand i (dto\<lparr>ud_removedImages := v1, ud_removedVideos := v2, ud_removedTags := v3\<rparr>) =
           updateCommand i dto"
    by (intro ext) (simp add: updateCommand_def)
  from a have "updateTry env i (dto\<lparr>ud_removedImages := v1, ud_removedVideos := v2,
                                     ud_removedTags := v3\<rparr>) files user =
               updateTry env i dto files user"
    by (simp add: updateTry_def c)
  then show "update env i (dto\<lparr>ud_removedImages := v1, ud_removedVideos := v2, ud_removedTags := v3\<rparr>)
        files user = update env i dto files user"
    by (simp add: update_def)
qed

theorem parseArrayField_behaviour_witness:
  "parseArrayField sample_env (JArr [JStr ''A'', JNull, JArr [JStr ''B'']]) = [JStr ''A'', JStr ''B''] \<and>
   parseArrayField sample_env (JStr ids_array_text) = [JStr ''A'', JStr ''B''] \<and>
   parseArrayField sample_env (JStr ''A, B'') = [JStr ''A'', JStr ''B''] \<and>
   update sample_env ''a1'' (empty_update\<lparr>ud_removedImages := JStr ''A, B''\<rparr>) no_files
     (Some sample_author) =
   update sample_env ''a1'' (empty_update\<lparr>ud_removedImages := JStr ids_array_text\<rparr>) no_files
     (Some sample_author)"
proof -
  let ?d = "empty_update\<lparr>ud_removedImages := JStr ids_array_text\<rparr>"
  note t = parseArrayField_behaviour [of sample_env ?d "''a1''" no_files "Some sample_author"]
  have ne: "ids_array_text \<noteq> []" by (simp add: ids_array_text_def)
  have f: "filter notNullish (flat [JStr ''A'', JNull, JArr [JStr ''B'']]) = [JStr ''A'', JStr ''B'']"
          "filter notNullish (flat [JStr ''A'', JStr ''B'']) = [JStr ''A'', JStr ''B'']"
    by (simp_all add: flat_def notNullish_def)
  from t [THEN conjunct1, rule_format, of "[JStr ''A'', JNull, JArr [JStr ''B'']]"] have
    1: "parseArrayField sample_env (JArr [JStr ''A'', JNull, JArr [JStr ''B'']]) = [JStr ''A'', JStr ''B'']"
    by (simp only: f)
  from t [THEN conjunct2, THEN conjunct1, rule_format, OF conjI, OF ne sample_parses(7)]
       t [THEN conjunct1, rule_format, of "[JStr ''A'', JStr ''B'']"] have
    2: "parseArrayField sample_env (JStr ids_array_text) = [JStr ''A'', JStr ''B'']"
    by (simp only: f)
  have g: "map JStr (filter (\<lambda>item. item \<noteq> []) (map trim (split_comma ''A, B''))) =
             [JStr ''A'', JStr ''B'']"
    by (simp add: trim_def isWhiteSpace_def)
  from t [THEN conjunct2, THEN conjunct2, THEN conjunct2, THEN conjunct1, rule_format,
          OF sample_parses(8)] have
    3: "parseArrayField sample_env (JStr ''A, B'') = [JStr ''A'', JStr ''B'']"
    by (simp only: g)
  have u: "parseArrayField sample_env JUndefined = []"
    by (simp add: parseArrayField_def)
  have h: "parseArrayField sample_env (JStr ''A, B'') = parseArrayField sample_env (ud_removedImages ?d) \<and>
      parseArrayField sample_env JUndefined = parseArrayField sample_env (ud_removedVideos ?d) \<and>
      parseArrayField sample_env JUndefined = parseArrayField sample_env (ud_removedTags ?d)"
    by (simp add: empty_update_def 2 3 u)
  have e: "?d\<lparr>ud_removedImages := JStr ''A, B'', ud_removedVideos := JUndefined,
               ud_removedTags := JUndefined\<rparr> = empty_update\<lparr>ud_removedImages := JStr ''A, B''\<rparr>"
    by (simp add: empty_update_def)
  from t [THEN conjunct2, THEN conjunct2, THEN conjunct2, THEN conjunct2, THEN conjunct2,
          rule_format, OF h] have
    4: "update sample_env ''a1'' (empty_update\<lparr>ud_removedImages := JStr ''A, B''\<rparr>) no_files
          (Some sample_author) =
        update sample_env ''a1'' ?d no_files (Some sample_author)"
    by (simp only: e)
  from 1 2 3 4 show ?thesis by (intro conjI)
qed

text \<open>
  The claim as stated fails: the string \<^verbatim>\<open>a,b\<close> makes the parsing of the create flow
  give up with the format error, and \<open>parseArrayField\<close> returns its two pieces; the string
  of two quoted identifiers separated by a comma is an array for the create flow, after
  the retry in brackets, and for \<open>parseArrayField\<close> two pieces that keep their quotes.
\<close>

theorem parseArrayField_counterexample:
  "parseTags sample_env (Some ''a,b'') =
     Inl (Exn BadRequestException ''Invalid JSON format for tags'') \<and>
   parseArrayField sample_env (JStr ''a,b'') = [JStr ''a'', JStr ''b''] \<and>
   parseJsonOrWrapped sample_env ids_quoted_text = Some (JArr [JStr ''a'', JStr ''b'']) \<and>
   parseArrayField sample_env (JStr ids_quoted_text) =
     [JStr (CHR 0x22 # ''a'' @ [CHR 0x22]), JStr (CHR 0x22 # ''b'' @ [CHR 0x22])]"
  by code_simp

end
